theory Spec2Isabelle
  imports Complex_Main
begin

section \<open>Python values, errors and the dictionary operations the assessor uses\<close>

text \<open>
  The assessor of \<^verbatim>\<open>orion_snn_consciousness.py\<close> reads a dictionary of type
  \<^verbatim>\<open>Dict[str, Any]\<close>. A value is therefore one of Python's primitives, a list, a
  dictionary, or some other object; \<open>PObj\<close> stands for an object with the behaviour of
  \<^verbatim>\<open>object\<close> itself: true, without a \<^verbatim>\<open>get\<close> method, neither ordered nor a number.
  Floats are modelled as real numbers: no rounding error, no NaN and no infinity; float
  arithmetic never raises in Python, it overflows to infinity silently. Integers are
  unbounded, as in Python, and converting one that is too large for a float raises
  OverflowError.
\<close>

datatype pyval =
    PNone
  | PBool bool
  | PInt int
  | PFloat real
  | PStr string
  | PList "pyval list"
  | PDict "(pyval \<times> pyval) list"
  | PObj nat

datatype py_error = TypeError | AttributeError | KeyError | ValueError | OverflowError

type_synonym 'a result = "py_error + 'a"

type_synonym pydict = "(string \<times> pyval) list"

definition ebind :: "'a result \<Rightarrow> ('a \<Rightarrow> 'b result) \<Rightarrow> 'b result" where
  "ebind m f = (case m of Inl e \<Rightarrow> Inl e | Inr v \<Rightarrow> f v)"

fun emap :: "('a \<Rightarrow> 'b result) \<Rightarrow> 'a list \<Rightarrow> 'b list result" where
  "emap f [] = Inr []"
| "emap f (x # xs) = ebind (f x) (\<lambda>y. ebind (emap f xs) (\<lambda>ys. Inr (y # ys)))"

text \<open>\<^verbatim>\<open>d.get(k, default)\<close> on a string-keyed dictionary.\<close>

definition dict_get :: "pydict \<Rightarrow> string \<Rightarrow> pyval \<Rightarrow> pyval" where
  "dict_get d k dflt = (case map_of d k of None \<Rightarrow> dflt | Some v \<Rightarrow> v)"

text \<open>\<^verbatim>\<open>d[k]\<close>: a missing key raises KeyError.\<close>

definition dict_index :: "(string \<times> 'v) list \<Rightarrow> string \<Rightarrow> 'v result" where
  "dict_index d k = (case map_of d k of None \<Rightarrow> Inl KeyError | Some v \<Rightarrow> Inr v)"

text \<open>
  \<^verbatim>\<open>v.get(k, default)\<close> on an arbitrary value: only a dictionary has the method, anything
  else raises AttributeError.
\<close>

fun value_get :: "pyval \<Rightarrow> string \<Rightarrow> pyval \<Rightarrow> pyval result" where
  "value_get (PDict kvs) k dflt =
     Inr (case map_of kvs (PStr k) of None \<Rightarrow> dflt | Some v \<Rightarrow> v)"
| "value_get _ k dflt = Inl AttributeError"

text \<open>Truth value of an object, as \<^verbatim>\<open>if v\<close> and \<^verbatim>\<open>v and w\<close> test it.\<close>

fun truthy :: "pyval \<Rightarrow> bool" where
  "truthy PNone = False"
| "truthy (PBool b) = b"
| "truthy (PInt i) = (i \<noteq> 0)"
| "truthy (PFloat r) = (r \<noteq> 0)"
| "truthy (PStr s) = (s \<noteq> [])"
| "truthy (PList xs) = (xs \<noteq> [])"
| "truthy (PDict kvs) = (kvs \<noteq> [])"
| "truthy (PObj _) = True"

text \<open>The numeric value of a number; \<^verbatim>\<open>bool\<close> is a subclass of \<^verbatim>\<open>int\<close>.\<close>

fun num_of :: "pyval \<Rightarrow> real option" where
  "num_of (PBool b) = Some (if b then 1 else 0)"
| "num_of (PInt i) = Some (of_int i)"
| "num_of (PFloat r) = Some r"
| "num_of _ = None"

text \<open>
  \<^verbatim>\<open>v > c\<close> for a numeric literal \<open>c\<close>: a non-number raises TypeError. Python compares an
  int with a float exactly, whatever the int's size.
\<close>

definition py_gt :: "pyval \<Rightarrow> real \<Rightarrow> bool result" where
  "py_gt v c = (case num_of v of None \<Rightarrow> Inl TypeError | Some x \<Rightarrow> Inr (c < x))"

subsection \<open>Numbers computed by the assessor\<close>

datatype pynum = NInt int | NFloat real

fun nval :: "pynum \<Rightarrow> real" where
  "nval (NInt i) = of_int i"
| "nval (NFloat r) = r"

fun of_num :: "pynum \<Rightarrow> pyval" where
  "of_num (NInt i) = PInt i"
| "of_num (NFloat r) = PFloat r"

text \<open>\<^verbatim>\<open>a + b\<close>: two ints give an int, anything else a float.\<close>

fun nadd :: "pynum \<Rightarrow> pynum \<Rightarrow> pynum" where
  "nadd (NInt i) (NInt j) = NInt (i + j)"
| "nadd a b = NFloat (nval a + nval b)"

text \<open>\<^verbatim>\<open>min(a, b)\<close> returns \<open>b\<close> only when \<open>b < a\<close>, and the object itself.\<close>

definition nmin :: "pynum \<Rightarrow> pynum \<Rightarrow> pynum" where
  "nmin a b = (if nval b < nval a then b else a)"

text \<open>
  Arithmetic of a float with another operand converts the operand to a float first. An int
  converts when it rounds to a finite double, that is when its magnitude is below
  \<open>2^1024 - 2^970\<close>; a larger one raises OverflowError, a non-number TypeError.
\<close>

definition float_range :: "int \<Rightarrow> bool" where
  "float_range i \<longleftrightarrow> \<bar>i\<bar> < 2 ^ 1024 - 2 ^ 970"

fun to_float :: "pyval \<Rightarrow> real result" where
  "to_float (PBool b) = Inr (if b then 1 else 0)"
| "to_float (PInt i) = (if float_range i then Inr (of_int i) else Inl OverflowError)"
| "to_float (PFloat r) = Inr r"
| "to_float _ = Inl TypeError"

text \<open>\<^verbatim>\<open>c * v\<close> and \<^verbatim>\<open>v * c\<close> for a float \<open>c\<close>.\<close>

definition py_mul_float :: "real \<Rightarrow> pyval \<Rightarrow> pynum result" where
  "py_mul_float c v = (case to_float v of Inl e \<Rightarrow> Inl e | Inr x \<Rightarrow> Inr (NFloat (c * x)))"

text \<open>\<^verbatim>\<open>v / c\<close> for a non-zero float literal \<open>c\<close>.\<close>

definition py_div_float :: "pyval \<Rightarrow> real \<Rightarrow> pynum result" where
  "py_div_float v c = (case to_float v of Inl e \<Rightarrow> Inl e | Inr x \<Rightarrow> Inr (NFloat (x / c)))"

text \<open>
  \<^verbatim>\<open>round(x, nd)\<close>: an int is returned unchanged, a float is rounded to \<open>nd\<close> decimals,
  ties going to the even neighbour.
\<close>

definition round_half_even :: "real \<Rightarrow> int" where
  "round_half_even x =
     (let f = \<lfloor>x\<rfloor>; d = x - of_int f in
      if d < 1 / 2 then f else if 1 / 2 < d then f + 1 else if even f then f else f + 1)"

definition py_round :: "real \<Rightarrow> nat \<Rightarrow> real" where
  "py_round x nd = of_int (round_half_even (x * 10 ^ nd)) / 10 ^ nd"

fun nround :: "pynum \<Rightarrow> nat \<Rightarrow> pynum" where
  "nround (NInt i) nd = NInt i"
| "nround (NFloat r) nd = NFloat (py_round r nd)"

text \<open>\<^verbatim>\<open>str(n)\<close> of a non-negative int, for the f-string of the summary.\<close>

definition digit_char :: "nat \<Rightarrow> char" where
  "digit_char d = ''0123456789'' ! d"

function str_nat :: "nat \<Rightarrow> string" where
  "str_nat n = (if n < 10 then [digit_char n] else str_nat (n div 10) @ [digit_char (n mod 10)])"
  by pat_completeness auto
termination
  by (relation "measure (\<lambda>n. n)") auto

declare str_nat.simps [simp del]

section \<open>The assessor\<close>

record assessment =
  timestamp :: string
  snn_config :: pydict
  indicators :: "(string \<times> pydict) list"
  summary :: pydict
  proof_field :: "string option"

record assessor =
  assessments :: "assessment list"
  proof_chain :: "string list"

text \<open>
  The two records hold values: \<open>assessments\<close> is the history read when a call leaves it.
  That its entries are objects shared with the caller is left out here and modelled by
  the store of the section on shared objects below.
\<close>

definition THEORIES :: "string list" where
  "THEORIES = [''RPT'', ''GWT'', ''HOT'', ''PP'', ''AST'']"

text \<open>\<^verbatim>\<open>SNNConsciousnessAssessor.__init__\<close>\<close>

definition init :: assessor where
  "init = \<lparr>assessments = [], proof_chain = [''GENESIS'']\<rparr>"

text \<open>
  \<^verbatim>\<open>0.3 * min(1, p / 0.5) if p > 0 else 0\<close>, the oscillation term of RPT, HOT and PP.
\<close>

definition band_term :: "pyval \<Rightarrow> pynum result" where
  "band_term p =
     ebind (py_gt p 0) (\<lambda>pos.
       if pos then ebind (py_div_float p 0.5) (\<lambda>q. Inr (NFloat (0.3 * nval (nmin (NInt 1) q))))
       else Inr (NInt 0))"

text \<open>\<^verbatim>\<open>c if b else 0\<close>\<close>

definition cond_term :: "real \<Rightarrow> bool \<Rightarrow> pynum" where
  "cond_term c b = (if b then NFloat c else NInt 0)"

text \<open>Lines 64 to 77: recurrent processing.\<close>

definition rpt_block :: "pydict \<Rightarrow> pyval \<Rightarrow> pyval \<Rightarrow> pydict result" where
  "rpt_block spike_data rec gamma_power =
     (let has_rec = dict_get spike_data ''network_recurrence'' (PBool False) in
      ebind (py_gt rec 3) (\<lambda>deep.
      ebind (band_term gamma_power) (\<lambda>band.
      let rpt_score = nmin (NFloat 1.0)
            (nadd (nadd (nadd (cond_term 0.3 (truthy has_rec)) (cond_term 0.2 deep))
               (cond_term 0.2 (truthy (dict_get spike_data ''has_top_down_connections'' PNone))))
               band) in
      ebind (py_gt gamma_power 0.2) (\<lambda>gamma_osc.
      Inr [(''recurrent_processing'', has_rec),
           (''feedback_depth'', rec),
           (''gamma_oscillations'', PBool gamma_osc),
           (''score'', of_num (nround rpt_score 3))]))))"

text \<open>
  Lines 79 to 92: global workspace. \<^verbatim>\<open>a and b\<close> does not evaluate \<open>b\<close> when \<open>a\<close> is
  false.
\<close>

definition gwt_block :: "pydict \<Rightarrow> pyval \<Rightarrow> pyval \<Rightarrow> pyval \<Rightarrow> pydict result" where
  "gwt_block spike_data n sync gamma_power =
     ebind (ebind (py_gt sync 0.5) (\<lambda>a. if a then py_gt n 500 else Inr False)) (\<lambda>has_broadcast.
     ebind (ebind (py_gt gamma_power 0.4) (\<lambda>a. if a then py_gt sync 0.6 else Inr False)) (\<lambda>ignition.
     ebind (py_mul_float 0.3 (dict_get spike_data ''information_transfer'' (PInt 0))) (\<lambda>transfer.
     let gwt_score = nmin (NFloat 1.0)
           (nadd (nadd (cond_term 0.4 has_broadcast) (cond_term 0.3 ignition)) transfer) in
     Inr [(''global_broadcast'', PBool has_broadcast),
          (''ignition_detected'', PBool ignition),
          (''information_transfer'', dict_get spike_data ''information_transfer'' (PInt 0)),
          (''score'', of_num (nround gwt_score 3))])))"

text \<open>
  Lines 94 to 106: higher-order thought. \<^verbatim>\<open>rec > 4 and v\<close> is \<open>False\<close> or the object
  \<open>v\<close> itself.
\<close>

definition hot_block :: "pydict \<Rightarrow> pyval \<Rightarrow> pyval \<Rightarrow> pydict result" where
  "hot_block spike_data rec alpha_power =
     ebind (py_gt rec 4) (\<lambda>a.
     let has_hierarchy =
           (if a then dict_get spike_data ''has_top_down_connections'' (PBool False)
            else PBool False) in
     ebind (band_term alpha_power) (\<lambda>band.
     let hot_score = nmin (NFloat 1.0)
           (nadd (nadd (cond_term 0.4 (truthy has_hierarchy))
              (cond_term 0.3 (truthy (dict_get spike_data ''has_lateral_inhibition'' PNone))))
              band) in
     ebind (py_gt alpha_power 0.2) (\<lambda>alpha_mod.
     Inr [(''hierarchical_processing'', has_hierarchy),
          (''lateral_inhibition'', dict_get spike_data ''has_lateral_inhibition'' (PBool False)),
          (''alpha_modulation'', PBool alpha_mod),
          (''score'', of_num (nround hot_score 3))])))"

text \<open>Lines 108 to 120: predictive processing.\<close>

definition pp_block :: "pydict \<Rightarrow> pyval \<Rightarrow> pydict result" where
  "pp_block spike_data theta_power =
     (let has_stdp = dict_get spike_data ''has_synaptic_plasticity'' (PBool False) in
      ebind (band_term theta_power) (\<lambda>band.
      let pp_score = nmin (NFloat 1.0)
            (nadd (nadd (cond_term 0.4 (truthy has_stdp))
               (cond_term 0.3 (truthy (dict_get spike_data ''has_top_down_connections'' PNone))))
               band) in
      ebind (py_gt theta_power 0.2) (\<lambda>theta_osc.
      Inr [(''synaptic_plasticity'', has_stdp),
           (''top_down_predictions'', dict_get spike_data ''has_top_down_connections'' (PBool False)),
           (''theta_oscillations'', PBool theta_osc),
           (''score'', of_num (nround pp_score 3))])))"

text \<open>
  Lines 122 to 132: attention schema. \<^verbatim>\<open>v and sync > 0.3\<close> is the object \<open>v\<close> itself when
  it is false, and the comparison is not evaluated then.
\<close>

definition ast_block :: "pydict \<Rightarrow> pyval \<Rightarrow> pydict result" where
  "ast_block spike_data sync =
     (let lateral = dict_get spike_data ''has_lateral_inhibition'' (PBool False) in
      ebind (if truthy lateral then ebind (py_gt sync 0.3) (\<lambda>b. Inr (PBool b)) else Inr lateral)
        (\<lambda>has_attention.
      let ast_score = nmin (NFloat 1.0)
            (nadd (cond_term 0.5 (truthy has_attention))
               (cond_term 0.5 (truthy (dict_get spike_data ''has_attention_mechanism'' (PBool False))))) in
      Inr [(''attention_mechanism'', has_attention),
           (''attention_schema'', dict_get spike_data ''has_attention_mechanism'' (PBool False)),
           (''score'', of_num (nround ast_score 3))]))"

text \<open>Lines 134 to 142: the weighted sum and the count of satisfied indicators.\<close>

definition weights :: "real list" where
  "weights = [0.20, 0.25, 0.20, 0.20, 0.15]"

text \<open>\<^verbatim>\<open>sum(s * w for s, w in pairs)\<close>, which starts from the int 0.\<close>

fun weighted_sum :: "pynum \<Rightarrow> (pyval \<times> real) list \<Rightarrow> pynum result" where
  "weighted_sum acc [] = Inr acc"
| "weighted_sum acc ((s, w) # rest) =
     ebind (py_mul_float w s) (\<lambda>p. weighted_sum (nadd acc p) rest)"

text \<open>\<^verbatim>\<open>sum(1 for k, v in ind.items() if k != "score" and v is True)\<close>\<close>

definition count_true :: "pydict \<Rightarrow> nat" where
  "count_true ind = length (filter (\<lambda>kv. fst kv \<noteq> ''score'' \<and> snd kv = PBool True) ind)"

definition aggregate :: "(string \<times> pydict) list \<Rightarrow> pydict result" where
  "aggregate inds =
     ebind (emap (\<lambda>t. ebind (dict_index inds t) (\<lambda>i. dict_index i ''score'')) THEORIES) (\<lambda>scores.
     ebind (weighted_sum (NInt 0) (zip scores weights)) (\<lambda>credence.
     ebind (emap (\<lambda>t. ebind (dict_index inds t) (\<lambda>i. Inr (count_true i))) THEORIES) (\<lambda>counts.
     let total_ind = sum_list counts in
     Inr [(''credence'', of_num (nround (NFloat (nval credence * 100)) 1)),
          (''satisfied_indicators'', PStr (str_nat total_ind @ ''/14''))])))"

text \<open>
  Lines 52 to 157: the assessment before its proof is attached. \<open>now\<close> is the clock's
  \<^verbatim>\<open>datetime.now(timezone.utc).isoformat()\<close>.
\<close>

definition build_assessment :: "string \<Rightarrow> pydict \<Rightarrow> assessment result" where
  "build_assessment now spike_data =
     (let n = dict_get spike_data ''n_neurons'' (PInt 0);
          sync = dict_get spike_data ''synchrony_index'' (PInt 0);
          rate = dict_get spike_data ''mean_firing_rate'' (PInt 0);
          rec = dict_get spike_data ''recurrence_depth'' (PInt 0);
          oscillations = dict_get spike_data ''population_oscillations'' (PDict []) in
      ebind (value_get oscillations ''gamma'' (PInt 0)) (\<lambda>gamma_power.
      ebind (value_get oscillations ''theta'' (PInt 0)) (\<lambda>theta_power.
      ebind (value_get oscillations ''alpha'' (PInt 0)) (\<lambda>alpha_power.
      ebind (rpt_block spike_data rec gamma_power) (\<lambda>rpt.
      ebind (gwt_block spike_data n sync gamma_power) (\<lambda>gwt.
      ebind (hot_block spike_data rec alpha_power) (\<lambda>hot.
      ebind (pp_block spike_data theta_power) (\<lambda>pp.
      ebind (ast_block spike_data sync) (\<lambda>ast.
      let inds = [(''RPT'', rpt), (''GWT'', gwt), (''HOT'', hot), (''PP'', pp), (''AST'', ast)] in
      ebind (aggregate inds) (\<lambda>summ.
      Inr \<lparr>timestamp = now,
           snn_config = [(''n_neurons'', n),
                         (''mean_firing_rate_hz'', rate),
                         (''synchrony'', sync),
                         (''oscillation_bands'', oscillations)],
           indicators = inds,
           summary = summ,
           proof_field = None\<rparr>))))))))))"

text \<open>
  Lines 159 to 166. \<open>dumps\<close> stands for
  \<^verbatim>\<open>json.dumps(assessment, sort_keys=True, default=str).encode()\<close>, which may raise, and
  \<open>hexdigest\<close> for \<^verbatim>\<open>hashlib.sha256(...).hexdigest()\<close>. The call returns its result, or the
  exception that left it, together with the assessor as the call leaves it.
\<close>

definition assess_from_spikes ::
  "(assessment \<Rightarrow> string result) \<Rightarrow> (string \<Rightarrow> string) \<Rightarrow> string \<Rightarrow> assessor \<Rightarrow> pydict
     \<Rightarrow> assessment result \<times> assessor" where
  "assess_from_spikes dumps hexdigest now self spike_data =
     (case build_assessment now spike_data of
        Inl e \<Rightarrow> (Inl e, self)
      | Inr a \<Rightarrow>
          (case dumps a of
             Inl e \<Rightarrow> (Inl e, self)
           | Inr bytes \<Rightarrow>
               let proof_hash = take 32 (hexdigest bytes);
                   self1 = self\<lparr>proof_chain := proof_chain self @ [proof_hash]\<rparr>;
                   a1 = a\<lparr>proof_field := Some (''sha256:'' @ proof_hash)\<rparr>;
                   self2 = self1\<lparr>assessments := assessments self1 @ [a1]\<rparr>
               in (Inr a1, self2)))"

section \<open>The status adapter\<close>

record bridge_status =
  status_module :: string
  status_assessments :: nat
  status_capabilities :: "string list"

text \<open>\<^verbatim>\<open>EIRABridge.status\<close>, reading the assessor it wraps as it is at the call.\<close>

definition status :: "assessor \<Rightarrow> bridge_status" where
  "status self =
     \<lparr>status_module = ''ORION-Brian2-Consciousness'',
      status_assessments = length (assessments self),
      status_capabilities = [''snn_consciousness_assessment'', ''spike_train_analysis'',
                             ''oscillation_mapping'', ''14_indicator_assessment'']\<rparr>"

section \<open>Observations, input shape and the library's contract\<close>

text \<open>What a caller reads off a returned assessment.\<close>

definition sub_signal :: "assessment \<Rightarrow> string \<Rightarrow> string \<Rightarrow> pyval option" where
  "sub_signal a t k = (case map_of (indicators a) t of None \<Rightarrow> None | Some ind \<Rightarrow> map_of ind k)"

definition theory_score :: "assessment \<Rightarrow> string \<Rightarrow> real option" where
  "theory_score a t = (case sub_signal a t ''score'' of None \<Rightarrow> None | Some v \<Rightarrow> num_of v)"

definition credence_of :: "assessment \<Rightarrow> real option" where
  "credence_of a = (case map_of (summary a) ''credence'' of None \<Rightarrow> None | Some v \<Rightarrow> num_of v)"

definition satisfied_of :: "assessment \<Rightarrow> pyval option" where
  "satisfied_of a = map_of (summary a) ''satisfied_indicators''"

definition transfer_of :: "pydict \<Rightarrow> real option" where
  "transfer_of d = num_of (dict_get d ''information_transfer'' (PInt 0))"

definition transfer_nonneg :: "pydict \<Rightarrow> bool" where
  "transfer_nonneg d = (case transfer_of d of None \<Rightarrow> False | Some y \<Rightarrow> 0 \<le> y)"

text \<open>The score entry of an indicator, as the aggregation reads and multiplies it.\<close>

definition score_in :: "pydict \<Rightarrow> real \<Rightarrow> bool" where
  "score_in ind x \<longleftrightarrow> (case map_of ind ''score'' of None \<Rightarrow> False | Some v \<Rightarrow> to_float v = Inr x)"

text \<open>
  The input records of the data model: every field may be absent; a field that is present
  holds an int where the data model says integer, an int or a float where it says real
  number, a bool where it says boolean, and \<^verbatim>\<open>population_oscillations\<close> holds a dictionary
  from strings to numbers. Signs and magnitudes are not restricted.
\<close>

fun is_int :: "pyval \<Rightarrow> bool" where
  "is_int (PInt _) = True"
| "is_int _ = False"

fun is_real :: "pyval \<Rightarrow> bool" where
  "is_real (PInt _) = True"
| "is_real (PFloat _) = True"
| "is_real _ = False"

fun is_bool :: "pyval \<Rightarrow> bool" where
  "is_bool (PBool _) = True"
| "is_bool _ = False"

fun is_str :: "pyval \<Rightarrow> bool" where
  "is_str (PStr _) = True"
| "is_str _ = False"

fun is_bands :: "pyval \<Rightarrow> bool" where
  "is_bands (PDict kvs) = list_all (\<lambda>kv. is_str (fst kv) \<and> is_real (snd kv)) kvs"
| "is_bands _ = False"

definition field_ok :: "(pyval \<Rightarrow> bool) \<Rightarrow> pydict \<Rightarrow> string \<Rightarrow> bool" where
  "field_ok P d k = (case map_of d k of None \<Rightarrow> True | Some v \<Rightarrow> P v)"

definition shaped :: "pydict \<Rightarrow> bool" where
  "shaped d \<longleftrightarrow>
     field_ok is_int d ''n_neurons'' \<and>
     field_ok is_real d ''synchrony_index'' \<and>
     field_ok is_real d ''mean_firing_rate'' \<and>
     field_ok is_int d ''recurrence_depth'' \<and>
     field_ok is_bool d ''network_recurrence'' \<and>
     field_ok is_bool d ''has_ei_balance'' \<and>
     field_ok is_bool d ''has_synaptic_plasticity'' \<and>
     field_ok is_bool d ''has_lateral_inhibition'' \<and>
     field_ok is_bool d ''has_top_down_connections'' \<and>
     field_ok is_bool d ''has_attention_mechanism'' \<and>
     field_ok is_real d ''information_transfer'' \<and>
     field_ok is_bands d ''population_oscillations''"





text \<open>
  What is taken for granted of \<^verbatim>\<open>json.dumps\<close>: it returns on an assessment whose values
  are None, bools, floats, ints within the range of a float, strings, and lists and
  string-keyed dictionaries of such values. Nothing is assumed of it on any other
  assessment.
\<close>

fun json_plain :: "pyval \<Rightarrow> bool" where
  "json_plain (PDict kvs) = list_all (\<lambda>kv. is_str (fst kv) \<and> json_plain (snd kv)) kvs"
| "json_plain (PList xs) = list_all json_plain xs"
| "json_plain (PObj _) = False"
| "json_plain (PInt i) = float_range i"
| "json_plain _ = True"

definition json_plain_dict :: "pydict \<Rightarrow> bool" where
  "json_plain_dict d = list_all (\<lambda>kv. json_plain (snd kv)) d"

definition json_plain_assessment :: "assessment \<Rightarrow> bool" where
  "json_plain_assessment a \<longleftrightarrow>
     json_plain_dict (snn_config a) \<and>
     list_all (\<lambda>ti. json_plain_dict (snd ti)) (indicators a) \<and>
     json_plain_dict (summary a)"

definition dumps_contract :: "(assessment \<Rightarrow> string result) \<Rightarrow> bool" where
  "dumps_contract dumps \<longleftrightarrow> (\<forall>a. json_plain_assessment a \<longrightarrow> \<not> isl (dumps a))"





text \<open>
  Stand-ins for the two library functions, to run the assessor on concrete inputs: a
  serializer that accepts exactly the plain assessments and a digest that returns its
  input.
\<close>

definition demo_dumps :: "assessment \<Rightarrow> string result" where
  "demo_dumps a = (if json_plain_assessment a then Inr (timestamp a) else Inl TypeError)"

definition demo_hexdigest :: "string \<Rightarrow> string" where
  "demo_hexdigest bytes = bytes"






text \<open>The twelve sub-signals that hold a bool.\<close>

definition boolean_signals :: "(string \<times> string) list" where
  "boolean_signals =
     [(''RPT'', ''recurrent_processing''), (''RPT'', ''gamma_oscillations''),
      (''GWT'', ''global_broadcast''), (''GWT'', ''ignition_detected''),
      (''HOT'', ''hierarchical_processing''), (''HOT'', ''lateral_inhibition''),
      (''HOT'', ''alpha_modulation''),
      (''PP'', ''synaptic_plasticity''), (''PP'', ''top_down_predictions''),
      (''PP'', ''theta_oscillations''),
      (''AST'', ''attention_mechanism''), (''AST'', ''attention_schema'')]"

text \<open>How many of them are \<open>True\<close> in an assessment.\<close>

definition satisfied_signals :: "assessment \<Rightarrow> nat" where
  "satisfied_signals a =
     length (filter (\<lambda>tk. sub_signal a (fst tk) (snd tk) = Some (PBool True)) boolean_signals)"

text \<open>Concrete input records.\<close>

definition scenario_input :: pydict where
  "scenario_input =
     [(''n_neurons'', PInt 10000), (''synchrony_index'', PFloat 0.55),
      (''mean_firing_rate'', PFloat 15.0), (''network_recurrence'', PBool True),
      (''recurrence_depth'', PInt 6), (''has_synaptic_plasticity'', PBool True),
      (''has_lateral_inhibition'', PBool True), (''has_top_down_connections'', PBool True),
      (''has_attention_mechanism'', PBool False),
      (''population_oscillations'',
         PDict [(PStr ''gamma'', PFloat 0.45), (PStr ''theta'', PFloat 0.35),
                (PStr ''alpha'', PFloat 0.30)]),
      (''information_transfer'', PFloat 0.40)]"


definition negative_transfer_input :: pydict where
  "negative_transfer_input = [(''information_transfer'', PInt (- 10))]"


definition bad_key_input :: pydict where
  "bad_key_input = [(''population_oscillations'', PDict [(PObj 0, PInt 1)])]"

definition demo_now :: string where
  "demo_now = ''2026-01-01T00:00:00+00:00''"

definition demo_later :: string where
  "demo_later = ''2026-01-02T00:00:00+00:00''"

section \<open>Objects shared with the caller\<close>

text \<open>
  The assessor record above holds, for each entry of the history, the value that the entry
  has when the call leaves it. In the source the entry is the very dict the call returns
  (lines 165 and 166), and that dict holds the object the caller passed as
  \<^verbatim>\<open>population_oscillations\<close> (lines 57 and 150): the content of an entry is shared with
  the caller. A store makes the sharing explicit. It holds the content of the caller's
  objects by address; an entry of the history is the dict as it was built together with the
  address of the object its \<^verbatim>\<open>oscillation_bands\<close> refers to, if the caller passed one; and
  the content of an entry is read through the store. The other values a record of the
  documented shape passes are numbers and bools, which cannot change.
\<close>

type_synonym addr = nat

record entry =
  entry_dict :: assessment
  bands_object :: "addr option"

record world =
  objects :: "addr \<Rightarrow> pyval"
  stored :: "entry list"
  digests :: "string list"

text \<open>What reading an entry gives, the objects being as they are.\<close>

definition entry_content :: "(addr \<Rightarrow> pyval) \<Rightarrow> entry \<Rightarrow> assessment" where
  "entry_content objs e =
     (case bands_object e of
        None \<Rightarrow> entry_dict e
      | Some a \<Rightarrow>
          (entry_dict e)\<lparr>snn_config :=
             map (\<lambda>kv. if fst kv = ''oscillation_bands'' then (fst kv, objs a) else kv)
               (snn_config (entry_dict e))\<rparr>)"

text \<open>The assessor as the record above has it.\<close>

definition assessor_of :: "world \<Rightarrow> assessor" where
  "assessor_of w =
     \<lparr>assessments = map (entry_content (objects w)) (stored w), proof_chain = digests w\<rparr>"

text \<open>\<^verbatim>\<open>SNNConsciousnessAssessor.__init__\<close>, beside the objects the caller holds.\<close>

definition fresh_world :: "(addr \<Rightarrow> pyval) \<Rightarrow> world" where
  "fresh_world objs = \<lparr>objects = objs, stored = [], digests = [''GENESIS'']\<rparr>"

text \<open>
  What happens to an assessor and the objects around it: a call, with its time, the
  entries of its record that are given by value and, if given, the address of the object
  passed as \<^verbatim>\<open>population_oscillations\<close>; the caller updating an object it holds; and the
  caller updating the dict that an earlier call returned, which is the entry of the
  history itself.
\<close>

datatype event =
    Evaluate string pydict "addr option"
  | CallerWrites addr pyval
  | CallerEdits nat assessment "addr option"

text \<open>The record a call reads: the object is read as it is at the call.\<close>

definition call_record :: "(addr \<Rightarrow> pyval) \<Rightarrow> pydict \<Rightarrow> addr option \<Rightarrow> pydict" where
  "call_record objs given osc =
     (case osc of None \<Rightarrow> given | Some a \<Rightarrow> (''population_oscillations'', objs a) # given)"

text \<open>
  A call is \<open>assess_from_spikes\<close> on the record it reads; when it returns, the dict it
  returns becomes the new entry, still referring to the caller's object.
\<close>

fun step ::
  "(assessment \<Rightarrow> string result) \<Rightarrow> (string \<Rightarrow> string) \<Rightarrow> world \<Rightarrow> event \<Rightarrow> world" where
  "step dumps hexdigest w (Evaluate now given osc) =
     (let r = assess_from_spikes dumps hexdigest now (assessor_of w)
                (call_record (objects w) given osc)
      in case fst r of
           Inl e \<Rightarrow> w
         | Inr a \<Rightarrow>
             w\<lparr>stored := stored w @ [\<lparr>entry_dict = a, bands_object = osc\<rparr>],
               digests := proof_chain (snd r)\<rparr>)"
| "step dumps hexdigest w (CallerWrites a v) = w\<lparr>objects := (objects w)(a := v)\<rparr>"
| "step dumps hexdigest w (CallerEdits k a osc) =
     (if k < length (stored w)
      then w\<lparr>stored := (stored w)[k := \<lparr>entry_dict = a, bands_object = osc\<rparr>]\<rparr>
      else w)"

text \<open>Whether an event is a call that returns.\<close>

fun returns ::
  "(assessment \<Rightarrow> string result) \<Rightarrow> (string \<Rightarrow> string) \<Rightarrow> world \<Rightarrow> event \<Rightarrow> bool" where
  "returns dumps hexdigest w (Evaluate now given osc) =
     (\<not> isl (fst (assess_from_spikes dumps hexdigest now (assessor_of w)
                    (call_record (objects w) given osc))))"
| "returns dumps hexdigest w _ = False"

fun is_evaluate :: "event \<Rightarrow> bool" where
  "is_evaluate (Evaluate _ _ _) = True"
| "is_evaluate _ = False"

text \<open>A sequence of events, counting the calls that return.\<close>

fun run ::
  "(assessment \<Rightarrow> string result) \<Rightarrow> (string \<Rightarrow> string) \<Rightarrow> world \<Rightarrow> event list
     \<Rightarrow> world \<times> nat" where
  "run dumps hexdigest w [] = (w, 0)"
| "run dumps hexdigest w (e # es) =
     (let rest = run dumps hexdigest (step dumps hexdigest w e) es
      in (fst rest, (if returns dumps hexdigest w e then 1 else 0) + snd rest))"

text \<open>
  A caller holding one dictionary of oscillations at address 0, which it passes to a call
  and updates afterwards.
\<close>

definition shared_objects :: "addr \<Rightarrow> pyval" where
  "shared_objects a = (if a = 0 then PDict [(PStr ''gamma'', PFloat 0.45)] else PNone)"

definition world_after_call :: world where
  "world_after_call =
     step demo_dumps demo_hexdigest (fresh_world shared_objects) (Evaluate demo_now [] (Some 0))"

definition world_after_write :: world where
  "world_after_write =
     step demo_dumps demo_hexdigest world_after_call
       (CallerWrites 0 (PDict [(PStr ''gamma'', PFloat 0.9)]))"

definition demo_events :: "event list" where
  "demo_events =
     [Evaluate demo_now [] (Some 0),
      CallerWrites 0 (PDict [(PStr ''gamma'', PFloat 0.9)]),
      Evaluate demo_now bad_key_input None,
      Evaluate demo_later scenario_input None]"

section \<open>Basic facts\<close>

lemma ebind_Inl [simp]: "ebind (Inl e) f = Inl e"
  by (simp add: ebind_def)

lemma ebind_Inr [simp]: "ebind (Inr v) f = f v"
  by (simp add: ebind_def)

lemma ebind_eq_Inr: "ebind m f = Inr y \<longleftrightarrow> (\<exists>v. m = Inr v \<and> f v = Inr y)"
  by (cases m) simp_all

lemma num_of_of_num [simp]: "num_of (of_num p) = Some (nval p)"
  by (cases p) simp_all

lemma nval_nadd [simp]: "nval (nadd a b) = nval a + nval b"
  by (cases a; cases b) simp_all

lemma to_float_num_of: "to_float v = Inr x \<Longrightarrow> num_of v = Some x"
  by (cases v) (simp_all split: if_splits)

lemma float_range_small: "\<bar>i\<bar> \<le> 1 \<Longrightarrow> float_range i"
  by (simp add: float_range_def)

lemma to_float_small:
  assumes "0 \<le> nval p" and "nval p \<le> 1"
  shows "to_float (of_num p) = Inr (nval p)"
proof (cases p)
  case (NInt i)
  with assms have "\<bar>i\<bar> \<le> 1" by simp
  then have "float_range i" by (rule float_range_small)
  with NInt show ?thesis by simp
next
  case (NFloat r)
  then show ?thesis by simp
qed

lemma is_int_is_real: "is_int v \<Longrightarrow> is_real v"
  by (cases v) simp_all

subsection \<open>Rounding keeps integer bounds\<close>

lemma round_half_even_cases:
  "round_half_even x = \<lfloor>x\<rfloor> \<or>
   (round_half_even x = \<lfloor>x\<rfloor> + 1 \<and> 1 / 2 \<le> x - of_int \<lfloor>x\<rfloor>)"
  by (auto simp: round_half_even_def Let_def)

lemma round_half_even_ge:
  assumes "of_int n \<le> x"
  shows "n \<le> round_half_even x"
proof -
  from assms have "n \<le> \<lfloor>x\<rfloor>" by (simp add: le_floor_iff)
  with round_half_even_cases [of x] show ?thesis by auto
qed

lemma round_half_even_le:
  assumes le: "x \<le> of_int n"
  shows "round_half_even x \<le> n"
proof -
  from round_half_even_cases [of x] show ?thesis
  proof
    assume "round_half_even x = \<lfloor>x\<rfloor>"
    moreover have "\<lfloor>x\<rfloor> \<le> n" using le by (simp add: floor_le_iff)
    ultimately show ?thesis by simp
  next
    assume up: "round_half_even x = \<lfloor>x\<rfloor> + 1 \<and> 1 / 2 \<le> x - of_int \<lfloor>x\<rfloor>"
    then have "of_int \<lfloor>x\<rfloor> < x" by linarith
    with le have "of_int \<lfloor>x\<rfloor> < (of_int n :: real)" by linarith
    then have "\<lfloor>x\<rfloor> < n" by simp
    with up show ?thesis by simp
  qed
qed

lemma py_round_ge:
  assumes "of_int n \<le> x"
  shows "of_int n \<le> py_round x nd"
proof -
  from assms have "of_int (n * 10 ^ nd) \<le> x * 10 ^ nd" by simp
  then have "n * 10 ^ nd \<le> round_half_even (x * 10 ^ nd)" by (rule round_half_even_ge)
  then have "(of_int (n * 10 ^ nd) :: real) \<le> of_int (round_half_even (x * 10 ^ nd))"
    by (simp only: of_int_le_iff)
  then show ?thesis by (simp add: py_round_def pos_le_divide_eq)
qed

lemma py_round_le:
  assumes "x \<le> of_int n"
  shows "py_round x nd \<le> of_int n"
proof -
  from assms have "x * 10 ^ nd \<le> of_int (n * 10 ^ nd)" by simp
  then have "round_half_even (x * 10 ^ nd) \<le> n * 10 ^ nd" by (rule round_half_even_le)
  then have "(of_int (round_half_even (x * 10 ^ nd)) :: real) \<le> of_int (n * 10 ^ nd)"
    by (simp only: of_int_le_iff)
  then show ?thesis by (simp add: py_round_def pos_divide_le_eq)
qed

lemma nval_nround_ge: "of_int n \<le> nval s \<Longrightarrow> of_int n \<le> nval (nround s nd)"
  by (cases s) (simp_all add: py_round_ge)

lemma nval_nround_le: "nval s \<le> of_int n \<Longrightarrow> nval (nround s nd) \<le> of_int n"
  by (cases s) (simp_all add: py_round_le)

lemma clamped_score_le: "nval (nround (nmin (NFloat 1) s) nd) \<le> 1"
proof -
  have "nval (nmin (NFloat 1) s) \<le> of_int 1" by (simp add: nmin_def)
  then have "nval (nround (nmin (NFloat 1) s) nd) \<le> of_int 1" by (rule nval_nround_le)
  then show ?thesis by simp
qed

lemma clamped_score_ge:
  assumes "0 \<le> nval s"
  shows "0 \<le> nval (nround (nmin (NFloat 1) s) nd)"
proof -
  from assms have "of_int 0 \<le> nval (nmin (NFloat 1) s)" by (simp add: nmin_def)
  then have "of_int 0 \<le> nval (nround (nmin (NFloat 1) s) nd)" by (rule nval_nround_ge)
  then show ?thesis by simp
qed

lemma band_term_ge: "band_term p = Inr b \<Longrightarrow> 0 \<le> nval b"
  by (auto simp: band_term_def ebind_eq_Inr py_gt_def py_div_float_def nmin_def
      dest!: to_float_num_of split: option.splits if_splits sum.splits)

subsection \<open>The score of each block\<close>

lemma clamped_score_in:
  assumes "map_of ind ''score'' = Some (of_num (nround (nmin (NFloat 1) s) nd))"
    and "0 \<le> nval s"
  shows "\<exists>x. score_in ind x \<and> 0 \<le> x \<and> x \<le> 1"
proof -
  let ?p = "nround (nmin (NFloat 1) s) nd"
  have lo: "0 \<le> nval ?p" using assms(2) by (rule clamped_score_ge)
  have hi: "nval ?p \<le> 1" by (rule clamped_score_le)
  from to_float_small [OF lo hi] assms(1) have "score_in ind (nval ?p)"
    by (simp add: score_in_def)
  with lo hi show ?thesis by blast
qed

lemma clamped_float_score_in:
  assumes "map_of ind ''score'' = Some (of_num (nround (nmin (NFloat 1) (nadd s (NFloat t))) nd))"
  shows "\<exists>x. score_in ind x \<and> x \<le> 1 \<and> (0 \<le> nval s + t \<longrightarrow> 0 \<le> x)"
proof -
  let ?s = "nadd s (NFloat t)"
  let ?p = "nround (nmin (NFloat 1) ?s) nd"
  have "\<exists>r. ?p = NFloat r" by (cases s) (simp_all add: nmin_def)
  then have "to_float (of_num ?p) = Inr (nval ?p)" by auto
  with assms have "score_in ind (nval ?p)" by (simp add: score_in_def)
  moreover have "nval ?p \<le> 1" by (rule clamped_score_le)
  moreover have "0 \<le> nval ?p" if "0 \<le> nval s + t"
    using that clamped_score_ge [of ?s nd] by simp
  ultimately show ?thesis by blast
qed

lemma rpt_block_score:
  assumes "rpt_block sd rec g = Inr ind"
  shows "\<exists>x. score_in ind x \<and> 0 \<le> x \<and> x \<le> 1"
  using assms
  apply (clarsimp simp: rpt_block_def Let_def ebind_eq_Inr dest!: band_term_ge)
  apply (rule clamped_score_in)
   apply simp
  apply (simp add: cond_term_def)
  done

lemma gwt_block_score:
  assumes "gwt_block sd n sync g = Inr ind"
  shows "\<exists>x. score_in ind x \<and> x \<le> 1 \<and>
    (\<forall>y. transfer_of sd = Some y \<longrightarrow> 0 \<le> y \<longrightarrow> 0 \<le> x)"
proof -
  from assms obtain b i y where
    t: "to_float (dict_get sd ''information_transfer'' (PInt 0)) = Inr y" and
    sc: "map_of ind ''score'' = Some (of_num (nround (nmin (NFloat 1)
           (nadd (nadd (cond_term 0.4 b) (cond_term 0.3 i)) (NFloat (0.3 * y)))) 3))"
    by (auto simp: gwt_block_def Let_def ebind_eq_Inr py_mul_float_def split: sum.splits)
  from clamped_float_score_in [OF sc] obtain x where
    x: "score_in ind x" "x \<le> 1"
      "0 \<le> nval (nadd (cond_term 0.4 b) (cond_term 0.3 i)) + 0.3 * y \<longrightarrow> 0 \<le> x"
    by blast
  have "0 \<le> nval (nadd (cond_term 0.4 b) (cond_term 0.3 i))"
    by (simp add: cond_term_def)
  with x(3) have "0 \<le> y \<Longrightarrow> 0 \<le> x" by simp
  moreover from t have "transfer_of sd = Some y"
    by (simp add: transfer_of_def to_float_num_of)
  ultimately show ?thesis using x(1,2) by auto
qed

lemma hot_block_score:
  assumes "hot_block sd rec al = Inr ind"
  shows "\<exists>x. score_in ind x \<and> 0 \<le> x \<and> x \<le> 1"
  using assms
  apply (clarsimp simp: hot_block_def Let_def ebind_eq_Inr dest!: band_term_ge split del: if_split)
  apply (rule clamped_score_in)
   apply simp
  apply (simp add: cond_term_def)
  done

lemma pp_block_score:
  assumes "pp_block sd th = Inr ind"
  shows "\<exists>x. score_in ind x \<and> 0 \<le> x \<and> x \<le> 1"
  using assms
  apply (clarsimp simp: pp_block_def Let_def ebind_eq_Inr dest!: band_term_ge)
  apply (rule clamped_score_in)
   apply simp
  apply (simp add: cond_term_def)
  done

lemma ast_block_score:
  assumes "ast_block sd sync = Inr ind"
  shows "\<exists>x. score_in ind x \<and> 0 \<le> x \<and> x \<le> 1"
  using assms
  apply (clarsimp simp: ast_block_def Let_def ebind_eq_Inr split del: if_split)
  apply (rule clamped_score_in)
   apply simp
  apply (simp add: cond_term_def)
  done

lemma score_in_theory_score:
  assumes "map_of (indicators a) t = Some ind" and "score_in ind x"
  shows "theory_score a t = Some x"
  using assms
  by (auto simp: theory_score_def sub_signal_def score_in_def to_float_num_of split: option.splits)

subsection \<open>The summary\<close>

lemma aggregate_credence:
  assumes "aggregate [(''RPT'', i1), (''GWT'', i2), (''HOT'', i3), (''PP'', i4), (''AST'', i5)] = Inr summ"
    and "score_in i1 x1" "score_in i2 x2" "score_in i3 x3" "score_in i4 x4" "score_in i5 x5"
  shows "map_of summ ''credence'' =
    Some (PFloat (py_round ((x1 * 0.20 + x2 * 0.25 + x3 * 0.20 + x4 * 0.20 + x5 * 0.15) * 100) 1))"
  using assms
  by (auto simp: aggregate_def THEORIES_def weights_def dict_index_def score_in_def
      py_mul_float_def Let_def algebra_simps split: option.splits)

lemma aggregate_satisfied:
  assumes "aggregate [(''RPT'', i1), (''GWT'', i2), (''HOT'', i3), (''PP'', i4), (''AST'', i5)] = Inr summ"
  shows "map_of summ ''satisfied_indicators'' =
    Some (PStr (str_nat (count_true i1 + count_true i2 + count_true i3 + count_true i4 + count_true i5)
      @ ''/14''))"
  using assms
  by (auto simp: aggregate_def THEORIES_def dict_index_def ebind_eq_Inr Let_def add.assoc)


subsection \<open>What a returning call has computed\<close>

lemma build_assessment_Inr:
  assumes "build_assessment now d = Inr a"
  shows "\<exists>g th al rpt gwt hot pp ast.
    value_get (dict_get d ''population_oscillations'' (PDict [])) ''gamma'' (PInt 0) = Inr g \<and>
    value_get (dict_get d ''population_oscillations'' (PDict [])) ''theta'' (PInt 0) = Inr th \<and>
    value_get (dict_get d ''population_oscillations'' (PDict [])) ''alpha'' (PInt 0) = Inr al \<and>
    rpt_block d (dict_get d ''recurrence_depth'' (PInt 0)) g = Inr rpt \<and>
    gwt_block d (dict_get d ''n_neurons'' (PInt 0)) (dict_get d ''synchrony_index'' (PInt 0)) g = Inr gwt \<and>
    hot_block d (dict_get d ''recurrence_depth'' (PInt 0)) al = Inr hot \<and>
    pp_block d th = Inr pp \<and>
    ast_block d (dict_get d ''synchrony_index'' (PInt 0)) = Inr ast \<and>
    aggregate [(''RPT'', rpt), (''GWT'', gwt), (''HOT'', hot), (''PP'', pp), (''AST'', ast)] = Inr (summary a) \<and>
    indicators a = [(''RPT'', rpt), (''GWT'', gwt), (''HOT'', hot), (''PP'', pp), (''AST'', ast)] \<and>
    snn_config a = [(''n_neurons'', dict_get d ''n_neurons'' (PInt 0)),
                    (''mean_firing_rate_hz'', dict_get d ''mean_firing_rate'' (PInt 0)),
                    (''synchrony'', dict_get d ''synchrony_index'' (PInt 0)),
                    (''oscillation_bands'', dict_get d ''population_oscillations'' (PDict []))] \<and>
    timestamp a = now \<and> proof_field a = None"
  using assms unfolding build_assessment_def Let_def ebind_eq_Inr
  by auto

lemma assess_from_spikes_Inr:
  assumes "assess_from_spikes D H now s d = (Inr a, s')"
  shows "\<exists>a0 bytes. build_assessment now d = Inr a0 \<and> D a0 = Inr bytes \<and>
     a = a0\<lparr>proof_field := Some (''sha256:'' @ take 32 (H bytes))\<rparr> \<and>
     s' = \<lparr>assessments = assessments s @ [a], proof_chain = proof_chain s @ [take 32 (H bytes)]\<rparr>"
  using assms
  by (auto simp: assess_from_spikes_def Let_def split: sum.splits)

lemma assess_from_spikes_build:
  assumes "build_assessment now d = Inr a0" "D a0 = Inr bytes"
  shows "assess_from_spikes D H now s d =
     (Inr (a0\<lparr>proof_field := Some (''sha256:'' @ take 32 (H bytes))\<rparr>),
      \<lparr>assessments = assessments s @ [a0\<lparr>proof_field := Some (''sha256:'' @ take 32 (H bytes))\<rparr>],
       proof_chain = proof_chain s @ [take 32 (H bytes)]\<rparr>)"
  using assms
  by (simp add: assess_from_spikes_def Let_def)

subsection \<open>The assessor on concrete records\<close>

lemmas eval_defs =
  build_assessment_def rpt_block_def gwt_block_def hot_block_def pp_block_def ast_block_def
  aggregate_def THEORIES_def weights_def dict_index_def count_true_def py_mul_float_def
  dict_get_def py_gt_def band_term_def py_div_float_def float_range_def str_nat.simps digit_char_def
  nmin_def cond_term_def py_round_def round_half_even_def Let_def

lemma build_empty:
  "build_assessment now [] =
     Inr \<lparr>timestamp = now,
          snn_config = [(''n_neurons'', PInt 0), (''mean_firing_rate_hz'', PInt 0),
                        (''synchrony'', PInt 0), (''oscillation_bands'', PDict [])],
          indicators =
            [(''RPT'', [(''recurrent_processing'', PBool False), (''feedback_depth'', PInt 0),
                        (''gamma_oscillations'', PBool False), (''score'', PInt 0)]),
             (''GWT'', [(''global_broadcast'', PBool False), (''ignition_detected'', PBool False),
                        (''information_transfer'', PInt 0), (''score'', PFloat 0)]),
             (''HOT'', [(''hierarchical_processing'', PBool False), (''lateral_inhibition'', PBool False),
                        (''alpha_modulation'', PBool False), (''score'', PInt 0)]),
             (''PP'', [(''synaptic_plasticity'', PBool False), (''top_down_predictions'', PBool False),
                       (''theta_oscillations'', PBool False), (''score'', PInt 0)]),
             (''AST'', [(''attention_mechanism'', PBool False), (''attention_schema'', PBool False),
                        (''score'', PInt 0)])],
          summary = [(''credence'', PFloat 0), (''satisfied_indicators'', PStr ''0/14'')],
          proof_field = None\<rparr>"
  by (simp add: eval_defs)

lemma build_negative_transfer:
  "build_assessment now negative_transfer_input =
     Inr \<lparr>timestamp = now,
          snn_config = [(''n_neurons'', PInt 0), (''mean_firing_rate_hz'', PInt 0),
                        (''synchrony'', PInt 0), (''oscillation_bands'', PDict [])],
          indicators =
            [(''RPT'', [(''recurrent_processing'', PBool False), (''feedback_depth'', PInt 0),
                        (''gamma_oscillations'', PBool False), (''score'', PInt 0)]),
             (''GWT'', [(''global_broadcast'', PBool False), (''ignition_detected'', PBool False),
                        (''information_transfer'', PInt (- 10)), (''score'', PFloat (- 3))]),
             (''HOT'', [(''hierarchical_processing'', PBool False), (''lateral_inhibition'', PBool False),
                        (''alpha_modulation'', PBool False), (''score'', PInt 0)]),
             (''PP'', [(''synaptic_plasticity'', PBool False), (''top_down_predictions'', PBool False),
                       (''theta_oscillations'', PBool False), (''score'', PInt 0)]),
             (''AST'', [(''attention_mechanism'', PBool False), (''attention_schema'', PBool False),
                        (''score'', PInt 0)])],
          summary = [(''credence'', PFloat (- 75)), (''satisfied_indicators'', PStr ''0/14'')],
          proof_field = None\<rparr>"
  by (simp add: eval_defs negative_transfer_input_def)

lemma build_scenario:
  "build_assessment now scenario_input =
     Inr \<lparr>timestamp = now,
          snn_config = [(''n_neurons'', PInt 10000), (''mean_firing_rate_hz'', PFloat 15),
                        (''synchrony'', PFloat (11 / 20)),
                        (''oscillation_bands'',
                           PDict [(PStr ''gamma'', PFloat (9 / 20)), (PStr ''theta'', PFloat (7 / 20)),
                                  (PStr ''alpha'', PFloat (3 / 10))])],
          indicators =
            [(''RPT'', [(''recurrent_processing'', PBool True), (''feedback_depth'', PInt 6),
                        (''gamma_oscillations'', PBool True), (''score'', PFloat (97 / 100))]),
             (''GWT'', [(''global_broadcast'', PBool True), (''ignition_detected'', PBool False),
                        (''information_transfer'', PFloat (2 / 5)), (''score'', PFloat (13 / 25))]),
             (''HOT'', [(''hierarchical_processing'', PBool True), (''lateral_inhibition'', PBool True),
                        (''alpha_modulation'', PBool True), (''score'', PFloat (22 / 25))]),
             (''PP'', [(''synaptic_plasticity'', PBool True), (''top_down_predictions'', PBool True),
                       (''theta_oscillations'', PBool True), (''score'', PFloat (91 / 100))]),
             (''AST'', [(''attention_mechanism'', PBool True), (''attention_schema'', PBool False),
                        (''score'', PFloat (1 / 2))])],
          summary = [(''credence'', PFloat (757 / 10)), (''satisfied_indicators'', PStr ''10/14'')],
          proof_field = None\<rparr>"
  by (simp add: eval_defs scenario_input_def)

lemma build_bad_key:
  "build_assessment now bad_key_input =
     Inr \<lparr>timestamp = now,
          snn_config = [(''n_neurons'', PInt 0), (''mean_firing_rate_hz'', PInt 0),
                        (''synchrony'', PInt 0), (''oscillation_bands'', PDict [(PObj 0, PInt 1)])],
          indicators =
            [(''RPT'', [(''recurrent_processing'', PBool False), (''feedback_depth'', PInt 0),
                        (''gamma_oscillations'', PBool False), (''score'', PInt 0)]),
             (''GWT'', [(''global_broadcast'', PBool False), (''ignition_detected'', PBool False),
                        (''information_transfer'', PInt 0), (''score'', PFloat 0)]),
             (''HOT'', [(''hierarchical_processing'', PBool False), (''lateral_inhibition'', PBool False),
                        (''alpha_modulation'', PBool False), (''score'', PInt 0)]),
             (''PP'', [(''synaptic_plasticity'', PBool False), (''top_down_predictions'', PBool False),
                       (''theta_oscillations'', PBool False), (''score'', PInt 0)]),
             (''AST'', [(''attention_mechanism'', PBool False), (''attention_schema'', PBool False),
                        (''score'', PInt 0)])],
          summary = [(''credence'', PFloat 0), (''satisfied_indicators'', PStr ''0/14'')],
          proof_field = None\<rparr>"
  by (simp add: eval_defs bad_key_input_def)


lemmas plain_defs = json_plain_assessment_def json_plain_dict_def float_range_def

lemma demo_dumps_contract: "dumps_contract demo_dumps"
  by (simp add: dumps_contract_def demo_dumps_def)

lemma contract_returns:
  assumes "dumps_contract D" and "json_plain_assessment a"
  shows "\<exists>bytes. D a = Inr bytes"
  using assms by (cases "D a") (auto simp: dumps_contract_def)

lemma assess_from_spikes_isl:
  "isl (fst (assess_from_spikes D H now s d)) =
     (case build_assessment now d of Inl e \<Rightarrow> True | Inr a \<Rightarrow> isl (D a))"
  by (simp add: assess_from_spikes_def Let_def split: sum.splits)

lemma returned_call:
  assumes "\<not> isl (fst r)"
  shows "r = (Inr (projr (fst r)), snd r)"
  using assms by (cases "fst r") (simp_all add: prod_eq_iff)

lemma demo_returns:
  "\<not> isl (fst (assess_from_spikes demo_dumps demo_hexdigest now s scenario_input))"
  "\<not> isl (fst (assess_from_spikes demo_dumps demo_hexdigest now s []))"
  "isl (fst (assess_from_spikes demo_dumps demo_hexdigest now s bad_key_input))"
  by (simp_all add: assess_from_spikes_isl build_scenario build_empty build_bad_key
      demo_dumps_def plain_defs)

section \<open>Score and credence ranges\<close>

text \<open>
  Claim C1, as the code has it. Whenever a call returns, each of the five scores is at most
  1 and the credence at most 100; the RPT, HOT, PP and AST scores are at least 0; and when
  \<^verbatim>\<open>information_transfer\<close> is absent or not negative, the GWT score and the credence are
  at least 0 as well, so that every score lies in [0, 1] and the credence in [0, 100].
\<close>

theorem scores_in_range:
  assumes "assess_from_spikes dumps hexdigest now self d = (Inr a, self')"
  shows "(\<forall>t \<in> set THEORIES. \<exists>x. theory_score a t = Some x \<and> x \<le> 1 \<and>
            (t \<noteq> ''GWT'' \<or> transfer_nonneg d \<longrightarrow> 0 \<le> x)) \<and>
         (\<exists>c. credence_of a = Some c \<and> c \<le> 100 \<and> (transfer_nonneg d \<longrightarrow> 0 \<le> c))"
proof -
  from assms obtain a0 bytes where b: "build_assessment now d = Inr a0"
    and a: "a = a0\<lparr>proof_field := Some (''sha256:'' @ take 32 (hexdigest bytes))\<rparr>"
    using assess_from_spikes_Inr by blast
  from build_assessment_Inr [OF b] obtain g th al rpt gwt hot pp ast where
    r: "rpt_block d (dict_get d ''recurrence_depth'' (PInt 0)) g = Inr rpt" and
    w: "gwt_block d (dict_get d ''n_neurons'' (PInt 0)) (dict_get d ''synchrony_index'' (PInt 0)) g = Inr gwt" and
    h: "hot_block d (dict_get d ''recurrence_depth'' (PInt 0)) al = Inr hot" and
    p: "pp_block d th = Inr pp" and
    s: "ast_block d (dict_get d ''synchrony_index'' (PInt 0)) = Inr ast" and
    agg: "aggregate [(''RPT'', rpt), (''GWT'', gwt), (''HOT'', hot), (''PP'', pp), (''AST'', ast)] = Inr (summary a0)" and
    inds: "indicators a0 = [(''RPT'', rpt), (''GWT'', gwt), (''HOT'', hot), (''PP'', pp), (''AST'', ast)]"
    by blast
  from rpt_block_score [OF r] obtain x1 where x1: "score_in rpt x1" "0 \<le> x1" "x1 \<le> 1" by blast
  from gwt_block_score [OF w] obtain x2 where x2: "score_in gwt x2" "x2 \<le> 1"
    and x2': "\<And>y. transfer_of d = Some y \<Longrightarrow> 0 \<le> y \<Longrightarrow> 0 \<le> x2" by blast
  from hot_block_score [OF h] obtain x3 where x3: "score_in hot x3" "0 \<le> x3" "x3 \<le> 1" by blast
  from pp_block_score [OF p] obtain x4 where x4: "score_in pp x4" "0 \<le> x4" "x4 \<le> 1" by blast
  from ast_block_score [OF s] obtain x5 where x5: "score_in ast x5" "0 \<le> x5" "x5 \<le> 1" by blast
  have nn: "transfer_nonneg d \<Longrightarrow> 0 \<le> x2"
    using x2' by (auto simp: transfer_nonneg_def split: option.splits)
  have ts: "theory_score a ''RPT'' = Some x1" "theory_score a ''GWT'' = Some x2"
    "theory_score a ''HOT'' = Some x3" "theory_score a ''PP'' = Some x4"
    "theory_score a ''AST'' = Some x5"
    using x1(1) x2(1) x3(1) x4(1) x5(1)
    by (simp_all add: score_in_theory_score a inds)
  let ?c = "(x1 * 0.20 + x2 * 0.25 + x3 * 0.20 + x4 * 0.20 + x5 * 0.15) * 100"
  have cr: "credence_of a = Some (py_round ?c 1)"
    using aggregate_credence [OF agg x1(1) x2(1) x3(1) x4(1) x5(1)]
    by (simp add: credence_of_def a)
  have "?c \<le> of_int 100" using x1 x2 x3 x4 x5 by simp
  then have up: "py_round ?c 1 \<le> 100" using py_round_le [of ?c 100 1] by simp
  have lo: "0 \<le> py_round ?c 1" if "transfer_nonneg d"
  proof -
    from that nn have "0 \<le> x2" by simp
    then have "of_int 0 \<le> ?c" using x1 x3 x4 x5 by simp
    then show ?thesis using py_round_ge [of 0 ?c 1] by simp
  qed
  show ?thesis
    using ts x1 x2 x3 x4 x5 nn cr up lo by (auto simp: THEORIES_def)
qed

text \<open>The concrete scenario of the specification satisfies the hypotheses.\<close>

theorem scores_in_range_witness:
  "transfer_nonneg scenario_input \<and>
   \<not> isl (fst (assess_from_spikes demo_dumps demo_hexdigest demo_now init scenario_input)) \<and>
   (\<exists>x. theory_score
          (projr (fst (assess_from_spikes demo_dumps demo_hexdigest demo_now init scenario_input)))
          ''GWT'' = Some x \<and> 0 \<le> x \<and> x \<le> 1) \<and>
   (\<exists>c. credence_of
          (projr (fst (assess_from_spikes demo_dumps demo_hexdigest demo_now init scenario_input)))
          = Some c \<and> 0 \<le> c \<and> c \<le> 100)"
proof -
  let ?r = "assess_from_spikes demo_dumps demo_hexdigest demo_now init scenario_input"
  have ok: "\<not> isl (fst ?r)"
    by (simp add: assess_from_spikes_def build_scenario demo_dumps_def plain_defs Let_def)
  then have run: "?r = (Inr (projr (fst ?r)), snd ?r)"
    by (cases "fst ?r") (simp_all add: prod_eq_iff)
  have tn: "transfer_nonneg scenario_input"
    by (simp add: transfer_nonneg_def transfer_of_def dict_get_def scenario_input_def)
  from scores_in_range [OF run] tn ok show ?thesis
    by (auto simp: THEORIES_def)
qed

text \<open>
  Claim C1 as stated fails: a record of the documented shape whose
  \<^verbatim>\<open>information_transfer\<close> is \<open>-10\<close> gets the GWT score \<open>-3\<close> and the credence \<open>-75\<close>,
  because \<^verbatim>\<open>min(1.0, ...)\<close> bounds the score from above only.
\<close>

theorem scores_unbounded_below:
  "shaped negative_transfer_input \<and>
   \<not> isl (fst (assess_from_spikes demo_dumps demo_hexdigest demo_now init negative_transfer_input)) \<and>
   theory_score
     (projr (fst (assess_from_spikes demo_dumps demo_hexdigest demo_now init negative_transfer_input)))
     ''GWT'' = Some (- 3) \<and>
   credence_of
     (projr (fst (assess_from_spikes demo_dumps demo_hexdigest demo_now init negative_transfer_input)))
     = Some (- 75)"
  by (simp add: assess_from_spikes_def build_negative_transfer demo_dumps_def plain_defs Let_def
      theory_score_def sub_signal_def credence_of_def)
     (simp add: shaped_def field_ok_def negative_transfer_input_def)

section \<open>Provenance\<close>

text \<open>
  Claim C2. After a call that returns, the proof field of the returned assessment is
  \<^verbatim>\<open>"sha256:"\<close> followed by the first 32 characters of the digest of the serialization of
  that assessment without its proof field, which is the assessment as it was built from the
  input; the same 32 characters are the one entry appended to the proof chain. Serializing
  the returned assessment without its proof field again gives the same bytes, hence the
  same prefix.
\<close>

theorem proof_is_digest_prefix:
  assumes "assess_from_spikes dumps hexdigest now self d = (Inr a, self')"
  shows "\<exists>bytes. dumps (a\<lparr>proof_field := None\<rparr>) = Inr bytes \<and>
           proof_field a = Some (''sha256:'' @ take 32 (hexdigest bytes)) \<and>
           proof_chain self' = proof_chain self @ [take 32 (hexdigest bytes)] \<and>
           build_assessment now d = Inr (a\<lparr>proof_field := None\<rparr>)"
proof -
  from assess_from_spikes_Inr [OF assms] obtain a0 bytes where
    b: "build_assessment now d = Inr a0" and k: "dumps a0 = Inr bytes" and
    a: "a = a0\<lparr>proof_field := Some (''sha256:'' @ take 32 (hexdigest bytes))\<rparr>" and
    s: "self' = \<lparr>assessments = assessments self @ [a],
                 proof_chain = proof_chain self @ [take 32 (hexdigest bytes)]\<rparr>"
    by blast
  from build_assessment_Inr [OF b] have "proof_field a0 = None" by blast
  then have "a\<lparr>proof_field := None\<rparr> = a0" by (simp add: a)
  with b k a s show ?thesis by simp
qed

text \<open>The scenario of the specification, with the stand-ins for the library.\<close>

theorem proof_is_digest_prefix_witness:
  "\<exists>bytes. demo_dumps
      ((projr (fst (assess_from_spikes demo_dumps demo_hexdigest demo_now init scenario_input)))
         \<lparr>proof_field := None\<rparr>) = Inr bytes \<and>
     proof_field (projr (fst (assess_from_spikes demo_dumps demo_hexdigest demo_now init scenario_input)))
       = Some (''sha256:'' @ take 32 (demo_hexdigest bytes)) \<and>
     proof_chain (snd (assess_from_spikes demo_dumps demo_hexdigest demo_now init scenario_input))
       = [''GENESIS'', take 32 (demo_hexdigest bytes)]"
proof -
  let ?r = "assess_from_spikes demo_dumps demo_hexdigest demo_now init scenario_input"
  have "\<not> isl (fst ?r)"
    by (simp add: assess_from_spikes_isl build_scenario demo_dumps_def plain_defs)
  then have "?r = (Inr (projr (fst ?r)), snd ?r)" by (rule returned_call)
  from proof_is_digest_prefix [OF this] show ?thesis
    by (auto simp: init_def)
qed

text \<open>
  Claim C5. When the serialization of the assessment raises, the call raises the same
  exception and the assessor is exactly as before the call: neither the history nor the
  proof chain has changed.
\<close>

theorem failed_serialization_leaves_state:
  assumes "build_assessment now d = Inr a0" and "dumps a0 = Inl e"
  shows "assess_from_spikes dumps hexdigest now self d = (Inl e, self)"
  using assms by (simp add: assess_from_spikes_def)

text \<open>
  A dictionary of oscillations with a key that is neither a string nor a number is echoed
  into the assessment, and the stand-in serializer rejects it.
\<close>

theorem failed_serialization_leaves_state_witness:
  "isl (demo_dumps (projr (build_assessment demo_now bad_key_input))) \<and>
   assess_from_spikes demo_dumps demo_hexdigest demo_now init bad_key_input = (Inl TypeError, init)"
proof -
  have b: "build_assessment demo_now bad_key_input = Inr (projr (build_assessment demo_now bad_key_input))"
    by (simp add: build_bad_key)
  have f: "demo_dumps (projr (build_assessment demo_now bad_key_input)) = Inl TypeError"
    by (simp add: build_bad_key demo_dumps_def plain_defs)
  from failed_serialization_leaves_state
    [where dumps = demo_dumps and hexdigest = demo_hexdigest and self = init, OF b f] f
  show ?thesis by simp
qed

section \<open>The chain and the history\<close>

lemma call_record_None: "call_record objs given None = given"
  by (simp add: call_record_def)

lemma step_evaluate_cases:
  "step D H w (Evaluate now given osc) = w \<and> \<not> returns D H w (Evaluate now given osc) \<or>
   (\<exists>a h. returns D H w (Evaluate now given osc) \<and>
      step D H w (Evaluate now given osc) =
        w\<lparr>stored := stored w @ [\<lparr>entry_dict = a, bands_object = osc\<rparr>],
          digests := digests w @ [h]\<rparr>)"
proof -
  let ?r = "assess_from_spikes D H now (assessor_of w) (call_record (objects w) given osc)"
  show ?thesis
  proof (cases "fst ?r")
    case (Inl e)
    then show ?thesis by (simp add: Let_def)
  next
    case (Inr a)
    then have "?r = (Inr a, snd ?r)" by (simp add: prod_eq_iff)
    from assess_from_spikes_Inr [OF this] obtain bytes where
      "snd ?r = \<lparr>assessments = assessments (assessor_of w) @ [a],
                 proof_chain = proof_chain (assessor_of w) @ [take 32 (H bytes)]\<rparr>"
      by blast
    then have "proof_chain (snd ?r) = digests w @ [take 32 (H bytes)]"
      by (simp add: assessor_of_def)
    with Inr show ?thesis by (auto simp: Let_def)
  qed
qed

lemma step_grows:
  "\<exists>hs. digests (step D H w e) = digests w @ hs \<and>
        length hs = (if returns D H w e then 1 else 0) \<and>
        length (stored (step D H w e)) = length (stored w) + (if returns D H w e then 1 else 0)"
proof (cases e)
  case (Evaluate now given osc)
  from step_evaluate_cases [of D H w now given osc] show ?thesis
    unfolding Evaluate by (elim disjE exE conjE) simp_all
qed simp_all

lemma run_grows:
  "run D H w es = (w', N) \<Longrightarrow>
     \<exists>hs. digests w' = digests w @ hs \<and> length hs = N \<and> length (stored w') = length (stored w) + N"
proof (induction es arbitrary: w w' N)
  case Nil
  then show ?case by simp
next
  case (Cons e es)
  let ?w1 = "step D H w e"
  let ?k = "if returns D H w e then 1 else (0::nat)"
  from Cons.prems have rest: "run D H ?w1 es = (w', snd (run D H ?w1 es))"
    and n: "N = ?k + snd (run D H ?w1 es)"
    by (auto simp: Let_def prod_eq_iff)
  from step_grows [of D H w e] obtain hs1 where
    one: "digests ?w1 = digests w @ hs1" "length hs1 = ?k"
      "length (stored ?w1) = length (stored w) + ?k"
    by blast
  from Cons.IH [OF rest] obtain hs2 where
    two: "digests w' = digests ?w1 @ hs2" "length hs2 = snd (run D H ?w1 es)"
      "length (stored w') = length (stored ?w1) + snd (run D H ?w1 es)"
    by blast
  have "digests w' = digests w @ (hs1 @ hs2)" "length (hs1 @ hs2) = N"
    "length (stored w') = length (stored w) + N"
    using one two n by simp_all
  then show ?case by blast
qed

lemma step_evaluate_keeps:
  assumes "is_evaluate e"
  shows "objects (step D H w e) = objects w \<and> (\<exists>new. stored (step D H w e) = stored w @ new)"
proof (cases e)
  case (Evaluate now given osc)
  from step_evaluate_cases [of D H w now given osc] show ?thesis
    unfolding Evaluate by (elim disjE exE conjE) simp_all
qed (use assms in simp_all)

lemma run_evaluate_keeps:
  "list_all is_evaluate es \<Longrightarrow> run D H w es = (w', N) \<Longrightarrow>
     objects w' = objects w \<and> (\<exists>new. stored w' = stored w @ new)"
proof (induction es arbitrary: w w' N)
  case Nil
  then show ?case by simp
next
  case (Cons e es)
  let ?w1 = "step D H w e"
  from Cons.prems have ev: "is_evaluate e" "list_all is_evaluate es"
    and rest: "run D H ?w1 es = (w', snd (run D H ?w1 es))"
    by (auto simp: Let_def prod_eq_iff)
  from step_evaluate_keeps [OF ev(1), of D H w] obtain new1 where
    one: "objects ?w1 = objects w" "stored ?w1 = stored w @ new1" by blast
  from Cons.IH [OF ev(2) rest] obtain new2 where
    two: "objects w' = objects ?w1" "stored w' = stored ?w1 @ new2" by blast
  from one two have "objects w' = objects w" "stored w' = stored w @ (new1 @ new2)" by simp_all
  then show ?case by blast
qed

text \<open>
  The entry a returning call stores has, as the call leaves it, the content of the
  assessment the call returns: the store and the assessor record above agree.
\<close>

lemma stored_entry_is_returned:
  assumes "assess_from_spikes D H now s (call_record objs given osc) = (Inr a, s')"
  shows "entry_content objs \<lparr>entry_dict = a, bands_object = osc\<rparr> = a"
proof (cases osc)
  case None
  then show ?thesis by (simp add: entry_content_def)
next
  case (Some ad)
  from assess_from_spikes_Inr [OF assms] obtain a0 p where
    b: "build_assessment now (call_record objs given osc) = Inr a0" and
    a: "a = a0\<lparr>proof_field := p\<rparr>"
    by blast
  from build_assessment_Inr [OF b] Some have
    "snn_config a0 =
       [(''n_neurons'', dict_get (call_record objs given osc) ''n_neurons'' (PInt 0)),
        (''mean_firing_rate_hz'', dict_get (call_record objs given osc) ''mean_firing_rate'' (PInt 0)),
        (''synchrony'', dict_get (call_record objs given osc) ''synchrony_index'' (PInt 0)),
        (''oscillation_bands'', objs ad)]"
    by (auto simp: call_record_def dict_get_def)
  with a Some show ?thesis by (simp add: entry_content_def)
qed

lemma step_evaluate_agrees:
  assumes "assess_from_spikes D H now (assessor_of w) (call_record (objects w) given osc) = (Inr a, s')"
  shows "assessor_of (step D H w (Evaluate now given osc)) = s'"
proof -
  from assess_from_spikes_Inr [OF assms] obtain bytes where
    s': "s' = \<lparr>assessments = assessments (assessor_of w) @ [a],
               proof_chain = proof_chain (assessor_of w) @ [take 32 (H bytes)]\<rparr>"
    by blast
  from stored_entry_is_returned [OF assms] s' assms show ?thesis
    by (simp add: assessor_of_def Let_def)
qed

lemma build_shared:
  "build_assessment now [(''population_oscillations'', PDict [(PStr ''gamma'', PFloat (9 / 20))])] =
     Inr \<lparr>timestamp = now,
          snn_config = [(''n_neurons'', PInt 0), (''mean_firing_rate_hz'', PInt 0),
                        (''synchrony'', PInt 0),
                        (''oscillation_bands'', PDict [(PStr ''gamma'', PFloat (9 / 20))])],
          indicators =
            [(''RPT'', [(''recurrent_processing'', PBool False), (''feedback_depth'', PInt 0),
                        (''gamma_oscillations'', PBool True), (''score'', PFloat (27 / 100))]),
             (''GWT'', [(''global_broadcast'', PBool False), (''ignition_detected'', PBool False),
                        (''information_transfer'', PInt 0), (''score'', PFloat 0)]),
             (''HOT'', [(''hierarchical_processing'', PBool False), (''lateral_inhibition'', PBool False),
                        (''alpha_modulation'', PBool False), (''score'', PInt 0)]),
             (''PP'', [(''synaptic_plasticity'', PBool False), (''top_down_predictions'', PBool False),
                       (''theta_oscillations'', PBool False), (''score'', PInt 0)]),
             (''AST'', [(''attention_mechanism'', PBool False), (''attention_schema'', PBool False),
                        (''score'', PInt 0)])],
          summary = [(''credence'', PFloat (27 / 5)), (''satisfied_indicators'', PStr ''1/14'')],
          proof_field = None\<rparr>"
  by (simp add: eval_defs)

lemma world_after_call_eval:
  "world_after_call =
     \<lparr>objects = shared_objects,
      stored =
        [\<lparr>entry_dict =
            \<lparr>timestamp = demo_now,
             snn_config = [(''n_neurons'', PInt 0), (''mean_firing_rate_hz'', PInt 0),
                           (''synchrony'', PInt 0),
                           (''oscillation_bands'', PDict [(PStr ''gamma'', PFloat (9 / 20))])],
             indicators =
               [(''RPT'', [(''recurrent_processing'', PBool False), (''feedback_depth'', PInt 0),
                           (''gamma_oscillations'', PBool True), (''score'', PFloat (27 / 100))]),
                (''GWT'', [(''global_broadcast'', PBool False), (''ignition_detected'', PBool False),
                           (''information_transfer'', PInt 0), (''score'', PFloat 0)]),
                (''HOT'', [(''hierarchical_processing'', PBool False), (''lateral_inhibition'', PBool False),
                           (''alpha_modulation'', PBool False), (''score'', PInt 0)]),
                (''PP'', [(''synaptic_plasticity'', PBool False), (''top_down_predictions'', PBool False),
                          (''theta_oscillations'', PBool False), (''score'', PInt 0)]),
                (''AST'', [(''attention_mechanism'', PBool False), (''attention_schema'', PBool False),
                           (''score'', PInt 0)])],
             summary = [(''credence'', PFloat (27 / 5)), (''satisfied_indicators'', PStr ''1/14'')],
             proof_field = Some (''sha256:'' @ take 32 demo_now)\<rparr>,
          bands_object = Some 0\<rparr>],
      digests = [''GENESIS'', take 32 demo_now]\<rparr>"
  by (simp add: world_after_call_def fresh_world_def call_record_def shared_objects_def
      assessor_of_def assess_from_spikes_def build_shared demo_dumps_def demo_hexdigest_def
      plain_defs Let_def)

text \<open>
  Claim C3, as the code has it. For an assessor reached from a fresh one by any calls, of
  which \<open>N\<close> returned, and by whatever the caller did in between to the objects it holds:
  the first element of the proof chain is \<^verbatim>\<open>"GENESIS"\<close>, the chain has \<open>N + 1\<close> entries and the
  history \<open>N\<close>. Whatever follows, the entries of the chain stay where they are, unchanged,
  and the chain and the history each grow by exactly one entry for each call that returns.
  And calls alone, however many, remove or replace no entry of the history and leave the
  content of every entry as it is.
\<close>

theorem chain_and_history_grow:
  assumes "run dumps hexdigest (fresh_world objs) events = (w, N)"
  shows "hd (digests w) = ''GENESIS'' \<and>
         length (digests w) = N + 1 \<and>
         length (stored w) = N \<and>
         (\<forall>more w' M. run dumps hexdigest w more = (w', M) \<longrightarrow>
            take (length (digests w)) (digests w') = digests w \<and>
            length (digests w') = length (digests w) + M \<and>
            length (stored w') = length (stored w) + M) \<and>
         (\<forall>more w' M. list_all is_evaluate more \<and> run dumps hexdigest w more = (w', M) \<longrightarrow>
            take (length (stored w)) (stored w') = stored w \<and>
            map (entry_content (objects w')) (take (length (stored w)) (stored w')) =
              map (entry_content (objects w)) (stored w))"
proof -
  from run_grows [OF assms] obtain hs where
    "digests w = digests (fresh_world objs) @ hs" "length hs = N"
    "length (stored w) = length (stored (fresh_world objs)) + N"
    by blast
  then have first: "hd (digests w) = ''GENESIS''" "length (digests w) = N + 1"
    "length (stored w) = N"
    by (simp_all add: fresh_world_def)
  have any: "take (length (digests w)) (digests w') = digests w \<and>
      length (digests w') = length (digests w) + M \<and>
      length (stored w') = length (stored w) + M"
    if "run dumps hexdigest w more = (w', M)" for more w' M
    using run_grows [OF that] by auto
  have calls: "take (length (stored w)) (stored w') = stored w \<and>
      map (entry_content (objects w')) (take (length (stored w)) (stored w')) =
        map (entry_content (objects w)) (stored w)"
    if "list_all is_evaluate more \<and> run dumps hexdigest w more = (w', M)" for more w' M
  proof -
    from that have "list_all is_evaluate more" "run dumps hexdigest w more = (w', M)"
      by simp_all
    from run_evaluate_keeps [OF this] show ?thesis by auto
  qed
  from first any calls show ?thesis by blast
qed

text \<open>
  A call that passes a shared dictionary of oscillations, the caller updating that
  dictionary, a call that fails in the serializer, and a call that returns.
\<close>

theorem chain_and_history_grow_witness:
  "snd (run demo_dumps demo_hexdigest (fresh_world shared_objects) demo_events) = 2 \<and>
   hd (digests (fst (run demo_dumps demo_hexdigest (fresh_world shared_objects) demo_events)))
     = ''GENESIS'' \<and>
   length (digests (fst (run demo_dumps demo_hexdigest (fresh_world shared_objects) demo_events)))
     = 3 \<and>
   length (stored (fst (run demo_dumps demo_hexdigest (fresh_world shared_objects) demo_events)))
     = 2"
proof -
  let ?r = "run demo_dumps demo_hexdigest (fresh_world shared_objects) demo_events"
  have first: "\<not> isl (fst (assess_from_spikes demo_dumps demo_hexdigest demo_now
      (assessor_of (fresh_world shared_objects))
      (call_record (objects (fresh_world shared_objects)) [] (Some 0))))"
    by (simp add: assess_from_spikes_isl fresh_world_def call_record_def shared_objects_def
        build_shared demo_dumps_def plain_defs)
  have n: "snd ?r = 2"
    by (simp add: demo_events_def Let_def first demo_returns call_record_None)
  have "?r = (fst ?r, snd ?r)" by simp
  from chain_and_history_grow [OF this] n show ?thesis by simp
qed

text \<open>
  Claim C3 as stated fails for the history. A call is given a dictionary of oscillations
  that the caller holds; the entry it appends holds that very dictionary (lines 57 and
  150). When the caller then sets its gamma power to 0.9, the entry appended before
  reads 0.9 too, although nothing was appended or removed.
\<close>

theorem history_entry_changes:
  "length (stored world_after_call) = 1 \<and>
   stored world_after_write = stored world_after_call \<and>
   map_of (snn_config (entry_content (objects world_after_call) (stored world_after_call ! 0)))
     ''oscillation_bands'' = Some (PDict [(PStr ''gamma'', PFloat 0.45)]) \<and>
   map_of (snn_config (entry_content (objects world_after_write) (stored world_after_write ! 0)))
     ''oscillation_bands'' = Some (PDict [(PStr ''gamma'', PFloat 0.9)])"
  by (simp add: world_after_write_def world_after_call_eval entry_content_def shared_objects_def)

section \<open>The two scenarios of the specification\<close>

text \<open>
  Claim C6. On the concrete record of the specification the call returns, with the RPT
  score 0.97, global broadcast true, ignition false and the GWT score 0.52, and the count
  of assessments that the status adapter reports is one more than before the call.
\<close>

theorem scenario_result:
  assumes "dumps_contract dumps"
  shows "\<exists>a self'. assess_from_spikes dumps hexdigest now self scenario_input = (Inr a, self') \<and>
     sub_signal a ''RPT'' ''score'' = Some (PFloat 0.97) \<and>
     sub_signal a ''GWT'' ''global_broadcast'' = Some (PBool True) \<and>
     sub_signal a ''GWT'' ''ignition_detected'' = Some (PBool False) \<and>
     sub_signal a ''GWT'' ''score'' = Some (PFloat 0.52) \<and>
     status_assessments (status self') = status_assessments (status self) + 1"
proof -
  obtain a0 where b: "build_assessment now scenario_input = Inr a0"
    and p: "json_plain_assessment a0"
    and v: "sub_signal a0 ''RPT'' ''score'' = Some (PFloat 0.97)"
      "sub_signal a0 ''GWT'' ''global_broadcast'' = Some (PBool True)"
      "sub_signal a0 ''GWT'' ''ignition_detected'' = Some (PBool False)"
      "sub_signal a0 ''GWT'' ''score'' = Some (PFloat 0.52)"
    by (simp add: build_scenario plain_defs sub_signal_def)
  from contract_returns [OF assms p] obtain bytes where "dumps a0 = Inr bytes" by blast
  from assess_from_spikes_build [where D = dumps and H = hexdigest and s = self, OF b this] v
  show ?thesis by (simp add: status_def sub_signal_def)
qed

text \<open>The stand-in serializer meets the contract.\<close>

theorem scenario_result_witness:
  "dumps_contract demo_dumps \<and>
   (\<exists>a self'. assess_from_spikes demo_dumps demo_hexdigest demo_now init scenario_input = (Inr a, self') \<and>
     sub_signal a ''RPT'' ''score'' = Some (PFloat 0.97) \<and>
     sub_signal a ''GWT'' ''global_broadcast'' = Some (PBool True) \<and>
     sub_signal a ''GWT'' ''ignition_detected'' = Some (PBool False) \<and>
     sub_signal a ''GWT'' ''score'' = Some (PFloat 0.52) \<and>
     status_assessments (status self') = 1)"
  using scenario_result [OF demo_dumps_contract, of demo_hexdigest demo_now init]
  by (simp add: demo_dumps_contract status_def init_def)

text \<open>
  Claim C7. On the empty record the call returns; all five scores equal 0 (the RPT, HOT,
  PP and AST scores are the int \<open>0\<close>, the GWT score the float \<open>0.0\<close>, and Python's \<open>0 == 0.0\<close>
  holds), the credence is the float \<open>0.0\<close> and the count of satisfied indicators is the
  string \<^verbatim>\<open>"0/14"\<close>.
\<close>

theorem empty_record_result:
  assumes "dumps_contract dumps"
  shows "\<exists>a self'. assess_from_spikes dumps hexdigest now self [] = (Inr a, self') \<and>
     theory_score a ''RPT'' = Some 0 \<and>
     theory_score a ''GWT'' = Some 0 \<and>
     theory_score a ''HOT'' = Some 0 \<and>
     theory_score a ''PP'' = Some 0 \<and>
     theory_score a ''AST'' = Some 0 \<and>
     map_of (summary a) ''credence'' = Some (PFloat 0.0) \<and>
     satisfied_of a = Some (PStr ''0/14'')"
proof -
  obtain a0 where b: "build_assessment now [] = Inr a0"
    and p: "json_plain_assessment a0"
    and v: "theory_score a0 ''RPT'' = Some 0" "theory_score a0 ''GWT'' = Some 0"
      "theory_score a0 ''HOT'' = Some 0" "theory_score a0 ''PP'' = Some 0"
      "theory_score a0 ''AST'' = Some 0"
      "map_of (summary a0) ''credence'' = Some (PFloat 0.0)"
      "satisfied_of a0 = Some (PStr ''0/14'')"
    by (simp add: build_empty plain_defs theory_score_def sub_signal_def satisfied_of_def)
  from contract_returns [OF assms p] obtain bytes where "dumps a0 = Inr bytes" by blast
  from assess_from_spikes_build [where D = dumps and H = hexdigest and s = self, OF b this] v
  show ?thesis by (simp add: theory_score_def sub_signal_def satisfied_of_def)
qed

text \<open>The empty record with the stand-ins for the library.\<close>

theorem empty_record_result_witness:
  "dumps_contract demo_dumps \<and>
   (\<exists>a self'. assess_from_spikes demo_dumps demo_hexdigest demo_now init [] = (Inr a, self') \<and>
     theory_score a ''RPT'' = Some 0 \<and>
     theory_score a ''GWT'' = Some 0 \<and>
     theory_score a ''HOT'' = Some 0 \<and>
     theory_score a ''PP'' = Some 0 \<and>
     theory_score a ''AST'' = Some 0 \<and>
     map_of (summary a) ''credence'' = Some (PFloat 0.0) \<and>
     satisfied_of a = Some (PStr ''0/14''))"
  using empty_record_result [OF demo_dumps_contract, of demo_hexdigest demo_now init]
  by (simp add: demo_dumps_contract)

section \<open>The count of satisfied indicators\<close>

text \<open>
  Claim C8. Whatever the input, the count of satisfied indicators of a returned assessment
  is a string that ends in \<^verbatim>\<open>"/14"\<close>; what precedes it is the number of entries, other than
  the scores, that are \<open>True\<close>.
\<close>

theorem denominator_is_14:
  assumes "assess_from_spikes dumps hexdigest now self d = (Inr a, self')"
  shows "\<exists>k. satisfied_of a = Some (PStr (str_nat k @ ''/14'')) \<and>
              k = sum_list (map (\<lambda>ti. count_true (snd ti)) (indicators a))"
proof -
  from assess_from_spikes_Inr [OF assms] obtain a0 bytes where
    b: "build_assessment now d = Inr a0" and
    a: "a = a0\<lparr>proof_field := Some (''sha256:'' @ take 32 (hexdigest bytes))\<rparr>"
    by blast
  from build_assessment_Inr [OF b] obtain rpt gwt hot pp ast where
    agg: "aggregate [(''RPT'', rpt), (''GWT'', gwt), (''HOT'', hot), (''PP'', pp), (''AST'', ast)] =
      Inr (summary a0)" and
    inds: "indicators a0 = [(''RPT'', rpt), (''GWT'', gwt), (''HOT'', hot), (''PP'', pp), (''AST'', ast)]"
    by blast
  from aggregate_satisfied [OF agg] inds a show ?thesis
    by (simp add: satisfied_of_def add.assoc)
qed

text \<open>The scenario of the specification returns, so the theorem applies to it.\<close>

theorem denominator_is_14_witness:
  "\<exists>k. satisfied_of
          (projr (fst (assess_from_spikes demo_dumps demo_hexdigest demo_now init scenario_input)))
        = Some (PStr (str_nat k @ ''/14''))"
proof -
  let ?r = "assess_from_spikes demo_dumps demo_hexdigest demo_now init scenario_input"
  have "?r = (Inr (projr (fst ?r)), snd ?r)"
    by (rule returned_call) (rule demo_returns)
  from denominator_is_14 [OF this] show ?thesis by blast
qed

section \<open>Determinism\<close>

lemma build_assessment_deterministic:
  assumes "build_assessment now1 d = Inr a1" and "build_assessment now2 d = Inr a2"
  shows "indicators a1 = indicators a2 \<and> summary a1 = summary a2"
proof -
  from build_assessment_Inr [OF assms(1)] obtain g th al rpt gwt hot pp ast where 1:
    "value_get (dict_get d ''population_oscillations'' (PDict [])) ''gamma'' (PInt 0) = Inr g"
    "value_get (dict_get d ''population_oscillations'' (PDict [])) ''theta'' (PInt 0) = Inr th"
    "value_get (dict_get d ''population_oscillations'' (PDict [])) ''alpha'' (PInt 0) = Inr al"
    "rpt_block d (dict_get d ''recurrence_depth'' (PInt 0)) g = Inr rpt"
    "gwt_block d (dict_get d ''n_neurons'' (PInt 0)) (dict_get d ''synchrony_index'' (PInt 0)) g = Inr gwt"
    "hot_block d (dict_get d ''recurrence_depth'' (PInt 0)) al = Inr hot"
    "pp_block d th = Inr pp"
    "ast_block d (dict_get d ''synchrony_index'' (PInt 0)) = Inr ast"
    "aggregate [(''RPT'', rpt), (''GWT'', gwt), (''HOT'', hot), (''PP'', pp), (''AST'', ast)] = Inr (summary a1)"
    "indicators a1 = [(''RPT'', rpt), (''GWT'', gwt), (''HOT'', hot), (''PP'', pp), (''AST'', ast)]"
    by blast
  from build_assessment_Inr [OF assms(2)] obtain g' th' al' rpt' gwt' hot' pp' ast' where 2:
    "value_get (dict_get d ''population_oscillations'' (PDict [])) ''gamma'' (PInt 0) = Inr g'"
    "value_get (dict_get d ''population_oscillations'' (PDict [])) ''theta'' (PInt 0) = Inr th'"
    "value_get (dict_get d ''population_oscillations'' (PDict [])) ''alpha'' (PInt 0) = Inr al'"
    "rpt_block d (dict_get d ''recurrence_depth'' (PInt 0)) g' = Inr rpt'"
    "gwt_block d (dict_get d ''n_neurons'' (PInt 0)) (dict_get d ''synchrony_index'' (PInt 0)) g' = Inr gwt'"
    "hot_block d (dict_get d ''recurrence_depth'' (PInt 0)) al' = Inr hot'"
    "pp_block d th' = Inr pp'"
    "ast_block d (dict_get d ''synchrony_index'' (PInt 0)) = Inr ast'"
    "aggregate [(''RPT'', rpt'), (''GWT'', gwt'), (''HOT'', hot'), (''PP'', pp'), (''AST'', ast')] = Inr (summary a2)"
    "indicators a2 = [(''RPT'', rpt'), (''GWT'', gwt'), (''HOT'', hot'), (''PP'', pp'), (''AST'', ast')]"
    by blast
  from 1(1-3) 2(1-3) have "g' = g" "th' = th" "al' = al" by simp_all
  with 1(4-8) 2(4-8) have "rpt' = rpt" "gwt' = gwt" "hot' = hot" "pp' = pp" "ast' = ast" by simp_all
  with 1(9,10) 2(9,10) show ?thesis by simp
qed

text \<open>
  Claim C9. Two calls on the same input record that both return give the same indicators
  and the same summary, whatever the two assessors, their histories and the two times of
  the calls.
\<close>

theorem same_input_same_scores:
  assumes "assess_from_spikes dumps1 hexdigest1 now1 self1 d = (Inr a1, self1')"
    and "assess_from_spikes dumps2 hexdigest2 now2 self2 d = (Inr a2, self2')"
  shows "indicators a1 = indicators a2 \<and> summary a1 = summary a2"
proof -
  from assess_from_spikes_Inr [OF assms(1)] obtain b1 p1 where
    1: "build_assessment now1 d = Inr b1" "a1 = b1\<lparr>proof_field := p1\<rparr>" by blast
  from assess_from_spikes_Inr [OF assms(2)] obtain b2 p2 where
    2: "build_assessment now2 d = Inr b2" "a2 = b2\<lparr>proof_field := p2\<rparr>" by blast
  from build_assessment_deterministic [OF 1(1) 2(1)] 1(2) 2(2) show ?thesis by simp
qed

text \<open>The same record assessed twice by one assessor, at two different times.\<close>

theorem same_input_same_scores_witness:
  "indicators (projr (fst (assess_from_spikes demo_dumps demo_hexdigest demo_now init scenario_input))) =
   indicators (projr (fst (assess_from_spikes demo_dumps demo_hexdigest demo_later
      (snd (assess_from_spikes demo_dumps demo_hexdigest demo_now init scenario_input)) scenario_input))) \<and>
   summary (projr (fst (assess_from_spikes demo_dumps demo_hexdigest demo_now init scenario_input))) =
   summary (projr (fst (assess_from_spikes demo_dumps demo_hexdigest demo_later
      (snd (assess_from_spikes demo_dumps demo_hexdigest demo_now init scenario_input)) scenario_input)))"
proof -
  let ?r1 = "assess_from_spikes demo_dumps demo_hexdigest demo_now init scenario_input"
  let ?r2 = "assess_from_spikes demo_dumps demo_hexdigest demo_later (snd ?r1) scenario_input"
  have 1: "?r1 = (Inr (projr (fst ?r1)), snd ?r1)"
    by (rule returned_call) (rule demo_returns)
  have 2: "?r2 = (Inr (projr (fst ?r2)), snd ?r2)"
    by (rule returned_call) (rule demo_returns)
  from same_input_same_scores [OF 1 2] show ?thesis .
qed

section \<open>Which entries count as satisfied\<close>

lemma field_ok_get:
  assumes "field_ok P d k" and "P dflt"
  shows "P (dict_get d k dflt)"
  using assms by (simp add: field_ok_def dict_get_def split: option.splits)

lemma is_real_not_True: "is_real v \<Longrightarrow> v \<noteq> PBool True"
  by (cases v) simp_all

lemma to_float_of_num_not_True: "of_num p \<noteq> PBool True"
  by (cases p) simp_all

lemma rpt_block_count:
  assumes "rpt_block d rec g = Inr ind" and "is_real rec"
  shows "count_true ind =
      length (filter (\<lambda>k. map_of ind k = Some (PBool True))
        [''recurrent_processing'', ''gamma_oscillations'']) \<and>
    map_of ind ''feedback_depth'' = Some rec"
  using assms
  by (auto simp: rpt_block_def Let_def ebind_eq_Inr count_true_def to_float_of_num_not_True
      dest: is_real_not_True)

lemma gwt_block_count:
  assumes "gwt_block d n sync g = Inr ind"
    and "is_real (dict_get d ''information_transfer'' (PInt 0))"
  shows "count_true ind =
      length (filter (\<lambda>k. map_of ind k = Some (PBool True))
        [''global_broadcast'', ''ignition_detected'']) \<and>
    map_of ind ''information_transfer'' = Some (dict_get d ''information_transfer'' (PInt 0))"
  using assms
  by (auto simp: gwt_block_def Let_def ebind_eq_Inr count_true_def to_float_of_num_not_True
      dest: is_real_not_True)

lemma hot_block_count:
  assumes "hot_block d rec al = Inr ind"
  shows "count_true ind =
      length (filter (\<lambda>k. map_of ind k = Some (PBool True))
        [''hierarchical_processing'', ''lateral_inhibition'', ''alpha_modulation''])"
  using assms
  by (auto simp: hot_block_def Let_def ebind_eq_Inr count_true_def to_float_of_num_not_True)

lemma pp_block_count:
  assumes "pp_block d th = Inr ind"
  shows "count_true ind =
      length (filter (\<lambda>k. map_of ind k = Some (PBool True))
        [''synaptic_plasticity'', ''top_down_predictions'', ''theta_oscillations''])"
  using assms
  by (auto simp: pp_block_def Let_def ebind_eq_Inr count_true_def to_float_of_num_not_True)

lemma ast_block_count:
  assumes "ast_block d sync = Inr ind"
  shows "count_true ind =
      length (filter (\<lambda>k. map_of ind k = Some (PBool True))
        [''attention_mechanism'', ''attention_schema''])"
  using assms
  by (auto simp: ast_block_def Let_def ebind_eq_Inr count_true_def to_float_of_num_not_True
      split: if_splits)

lemma str_nat_upto_12:
  assumes "k \<le> 12"
  shows "str_nat k \<noteq> ''14''"
proof -
  from assms have "k = 0 \<or> k = 1 \<or> k = 2 \<or> k = 3 \<or> k = 4 \<or> k = 5 \<or> k = 6 \<or> k = 7 \<or>
      k = 8 \<or> k = 9 \<or> k = 10 \<or> k = 11 \<or> k = 12"
    by arith
  then show ?thesis
    by (elim disjE) (simp_all add: str_nat.simps digit_char_def)
qed

text \<open>
  Claim C10. For a record of the documented shape, the number before \<^verbatim>\<open>"/14"\<close> is the number
  of the twelve bool-valued sub-signals that are \<open>True\<close>: \<^verbatim>\<open>feedback_depth\<close> is an int and
  \<^verbatim>\<open>information_transfer\<close> a number, neither is the object \<open>True\<close>, and the scores are left
  out. The number is therefore at most 12 and the string is never \<^verbatim>\<open>"14/14"\<close>.
\<close>

theorem numerator_counts_booleans:
  assumes "assess_from_spikes dumps hexdigest now self d = (Inr a, self')"
    and "shaped d"
  shows "satisfied_of a = Some (PStr (str_nat (satisfied_signals a) @ ''/14'')) \<and>
         satisfied_signals a \<le> 12 \<and>
         satisfied_of a \<noteq> Some (PStr ''14/14'') \<and>
         (\<exists>v. sub_signal a ''RPT'' ''feedback_depth'' = Some v \<and> is_int v) \<and>
         (\<exists>v. sub_signal a ''GWT'' ''information_transfer'' = Some v \<and> is_real v)"
proof -
  from assess_from_spikes_Inr [OF assms(1)] obtain a0 bytes where
    b: "build_assessment now d = Inr a0" and
    a: "a = a0\<lparr>proof_field := Some (''sha256:'' @ take 32 (hexdigest bytes))\<rparr>"
    by blast
  let ?rec = "dict_get d ''recurrence_depth'' (PInt 0)"
  let ?tr = "dict_get d ''information_transfer'' (PInt 0)"
  from build_assessment_Inr [OF b] obtain g th al rpt gwt hot pp ast where
    r: "rpt_block d ?rec g = Inr rpt" and
    w: "gwt_block d (dict_get d ''n_neurons'' (PInt 0)) (dict_get d ''synchrony_index'' (PInt 0)) g = Inr gwt" and
    h: "hot_block d ?rec al = Inr hot" and
    p: "pp_block d th = Inr pp" and
    s: "ast_block d (dict_get d ''synchrony_index'' (PInt 0)) = Inr ast" and
    agg: "aggregate [(''RPT'', rpt), (''GWT'', gwt), (''HOT'', hot), (''PP'', pp), (''AST'', ast)] = Inr (summary a0)" and
    inds: "indicators a0 = [(''RPT'', rpt), (''GWT'', gwt), (''HOT'', hot), (''PP'', pp), (''AST'', ast)]"
    by blast
  from assms(2) have rec: "is_int ?rec" and tr: "is_real ?tr"
    by (auto simp: shaped_def intro: field_ok_get)
  from rec have rec': "is_real ?rec" by (rule is_int_is_real)
  note c1 = rpt_block_count [OF r rec']
  note c2 = gwt_block_count [OF w tr]
  note c3 = hot_block_count [OF h]
  note c4 = pp_block_count [OF p]
  note c5 = ast_block_count [OF s]
  have total: "satisfied_signals a =
      count_true rpt + count_true gwt + count_true hot + count_true pp + count_true ast"
    unfolding c3 c4 c5 conjunct1 [OF c1] conjunct1 [OF c2]
    by (simp add: satisfied_signals_def boolean_signals_def sub_signal_def a inds)
  have sat: "satisfied_of a = Some (PStr (str_nat (satisfied_signals a) @ ''/14''))"
    using aggregate_satisfied [OF agg] unfolding total by (simp add: satisfied_of_def a)
  have le: "satisfied_signals a \<le> 12"
    unfolding satisfied_signals_def
    by (rule order_trans [OF length_filter_le]) (simp add: boolean_signals_def)
  from str_nat_upto_12 [OF le] have ne: "satisfied_of a \<noteq> Some (PStr ''14/14'')"
    by (simp add: sat)
  have fd: "sub_signal a ''RPT'' ''feedback_depth'' = Some ?rec"
    using c1 by (simp add: sub_signal_def a inds)
  have it: "sub_signal a ''GWT'' ''information_transfer'' = Some ?tr"
    using c2 by (simp add: sub_signal_def a inds)
  from sat le ne fd it rec tr show ?thesis by simp
qed

text \<open>The scenario of the specification has the documented shape and returns.\<close>

theorem numerator_counts_booleans_witness:
  "shaped scenario_input \<and>
   satisfied_of
     (projr (fst (assess_from_spikes demo_dumps demo_hexdigest demo_now init scenario_input)))
     = Some (PStr (str_nat (satisfied_signals
         (projr (fst (assess_from_spikes demo_dumps demo_hexdigest demo_now init scenario_input))))
         @ ''/14'')) \<and>
   satisfied_signals
     (projr (fst (assess_from_spikes demo_dumps demo_hexdigest demo_now init scenario_input)))
     \<le> 12"
proof -
  let ?r = "assess_from_spikes demo_dumps demo_hexdigest demo_now init scenario_input"
  have run: "?r = (Inr (projr (fst ?r)), snd ?r)"
    by (rule returned_call) (rule demo_returns)
  have s: "shaped scenario_input"
    by (simp add: shaped_def field_ok_def scenario_input_def)
  from numerator_counts_booleans [OF run s] s show ?thesis by simp
qed

section \<open>Totality on well-shaped records\<close>

























section \<open>Absent fields behave as their documented defaults\<close>






















end
